theory Spec2Isabelle
  imports Main
begin

section \<open>Stacks DEX pool contract (pool-v5): shallow embedding\<close>

text \<open>
  The contract is written in Clarity. Three points of the language shape the model.
  \<^item> A \<open>uint\<close> is an unsigned 128-bit integer. Arithmetic never wraps: an overflow of
    \<open>+\<close> or \<open>*\<close>, an underflow of \<open>-\<close> and a division by zero abort the whole
    transaction with a runtime error. Amounts are modelled as \<open>nat\<close> and every
    arithmetic operation of the source is a checked operation.
  \<^item> A public function returns a response, \<open>(ok v)\<close> or \<open>(err u)\<close>. When it returns
    \<open>(err u)\<close>, the state changes made during that call are discarded. \<open>asserts!\<close> and
    \<open>unwrap!\<close> return \<open>(err u)\<close> from the enclosing function at once.
  \<^item> The token contracts are external. Their state is a value of an arbitrary type
    \<open>'w\<close>, and their \<open>transfer\<close> function is a parameter of the environment.

  An argument of type \<open>uint\<close> is a natural number up to \<open>uint_max\<close>; a theorem that
  depends on this bound assumes it. Every function takes the state last and returns
  either a failure or its value, for the public functions together with the new state.
\<close>

subsection \<open>Failures and checked arithmetic\<close>

datatype runtime_error = ArithmeticOverflow | ArithmeticUnderflow | DivisionByZero | ExternalAbort

text \<open>
  \<open>Err u\<close> is the response \<open>(err u)\<close>; \<open>Abort e\<close> is a runtime error, which ends the
  transaction. In both cases no state is returned: the changes of the call are discarded.
\<close>

datatype failure = Err nat | Abort runtime_error

type_synonym 'a res = "failure + 'a"

definition and_then :: "'a res \<Rightarrow> ('a \<Rightarrow> 'b res) \<Rightarrow> 'b res" where
  "and_then m f = (case m of Inl e \<Rightarrow> Inl e | Inr v \<Rightarrow> f v)"

definition asserts :: "bool \<Rightarrow> failure \<Rightarrow> unit res" where
  "asserts b e = (if b then Inr () else Inl e)"

definition unwrap :: "'a option \<Rightarrow> failure \<Rightarrow> 'a res" where
  "unwrap v e = (case v of None \<Rightarrow> Inl e | Some x \<Rightarrow> Inr x)"

definition uint_max :: nat where
  "uint_max = 2 ^ 128 - 1"

definition uadd :: "nat \<Rightarrow> nat \<Rightarrow> nat res" where
  "uadd a b = (if a + b \<le> uint_max then Inr (a + b) else Inl (Abort ArithmeticOverflow))"

definition usub :: "nat \<Rightarrow> nat \<Rightarrow> nat res" where
  "usub a b = (if b \<le> a then Inr (a - b) else Inl (Abort ArithmeticUnderflow))"

definition umul :: "nat \<Rightarrow> nat \<Rightarrow> nat res" where
  "umul a b = (if a * b \<le> uint_max then Inr (a * b) else Inl (Abort ArithmeticOverflow))"

definition udiv :: "nat \<Rightarrow> nat \<Rightarrow> nat res" where
  "udiv a b = (if b = 0 then Inl (Abort DivisionByZero) else Inr (a div b))"

subsection \<open>Constants\<close>

abbreviation FEE_BPS :: nat where "FEE_BPS \<equiv> 30"
abbreviation BPS_DENOM :: nat where "BPS_DENOM \<equiv> 10000"
abbreviation MINIMUM_LIQUIDITY :: nat where "MINIMUM_LIQUIDITY \<equiv> 1000"

abbreviation ERR_ZERO_INPUT :: failure where "ERR_ZERO_INPUT \<equiv> Err 100"
abbreviation ERR_ZERO_RESERVES :: failure where "ERR_ZERO_RESERVES \<equiv> Err 101"
abbreviation ERR_DEADLINE_EXPIRED :: failure where "ERR_DEADLINE_EXPIRED \<equiv> Err 102"
abbreviation ERR_SLIPPAGE_EXCEEDED :: failure where "ERR_SLIPPAGE_EXCEEDED \<equiv> Err 103"
abbreviation ERR_INSUFFICIENT_LIQUIDITY :: failure where "ERR_INSUFFICIENT_LIQUIDITY \<equiv> Err 104"
abbreviation ERR_TRANSFER_X_FAILED :: failure where "ERR_TRANSFER_X_FAILED \<equiv> Err 105"
abbreviation ERR_TRANSFER_Y_FAILED :: failure where "ERR_TRANSFER_Y_FAILED \<equiv> Err 106"
abbreviation ERR_FEE_TRANSFER_FAILED :: failure where "ERR_FEE_TRANSFER_FAILED \<equiv> Err 107"
abbreviation ERR_ALREADY_INITIALIZED :: failure where "ERR_ALREADY_INITIALIZED \<equiv> Err 200"
abbreviation ERR_NOT_INITIALIZED :: failure where "ERR_NOT_INITIALIZED \<equiv> Err 201"
abbreviation ERR_INSUFFICIENT_LP_BALANCE :: failure where "ERR_INSUFFICIENT_LP_BALANCE \<equiv> Err 202"
abbreviation ERR_ZERO_SHARES :: failure where "ERR_ZERO_SHARES \<equiv> Err 203"
abbreviation ERR_MIN_LIQUIDITY :: failure where "ERR_MIN_LIQUIDITY \<equiv> Err 204"

subsection \<open>State and environment\<close>

type_synonym principal = string
type_synonym token = principal

text \<open>
  The data variables and the map of the contract, and \<open>tokens\<close>, the state of the
  external token contracts.
\<close>

record 'w state =
  fee_recipient :: "principal option"
  reserve_x :: nat
  reserve_y :: nat
  total_supply :: nat
  total_fees_x :: nat
  total_fees_y :: nat
  lp_balances :: "principal \<rightharpoonup> nat"
  tokens :: 'w

text \<open>
  What a call reads from its context: \<open>tx-sender\<close>, the contract's own principal
  (\<open>(as-contract tx-sender)\<close>), \<open>stacks-block-height\<close>, and the \<open>transfer\<close> function of
  the token contracts: token, amount, sender, recipient and the token state, giving the
  new token state, \<open>Err u\<close> when the token answers \<open>(err u)\<close>, or \<open>Abort e\<close>.
\<close>

record 'w env =
  tx_sender :: principal
  contract_principal :: principal
  stacks_block_height :: nat
  ft_transfer :: "token \<Rightarrow> nat \<Rightarrow> principal \<Rightarrow> principal \<Rightarrow> 'w \<Rightarrow> 'w res"

text \<open>\<open>(unwrap! (contract-call? token transfer ...) code)\<close>: an \<open>(err u)\<close> of the token
  becomes \<open>code\<close>; a runtime error ends the transaction.\<close>

definition unwrap_transfer :: "'w res \<Rightarrow> failure \<Rightarrow> 'w res" where
  "unwrap_transfer r code =
     (case r of Inl (Err u) \<Rightarrow> Inl code | Inl (Abort e) \<Rightarrow> Inl (Abort e) | Inr w \<Rightarrow> Inr w)"

definition get_lp_balance :: "'w state \<Rightarrow> principal \<Rightarrow> nat" where
  "get_lp_balance s user = (case lp_balances s user of None \<Rightarrow> 0 | Some b \<Rightarrow> b)"

subsection \<open>Quote functions\<close>

record quote_xy =
  q_dy :: nat
  q_fee :: nat

definition quote_x_for_y :: "nat \<Rightarrow> 'w state \<Rightarrow> quote_xy res" where
  "quote_x_for_y dx s =
    (let rx = reserve_x s; ry = reserve_y s in
     and_then (asserts (dx > 0) ERR_ZERO_INPUT) (\<lambda>_.
     and_then (asserts (rx > 0 \<and> ry > 0) ERR_ZERO_RESERVES) (\<lambda>_.
     and_then (umul dx FEE_BPS) (\<lambda>t.
     and_then (udiv t BPS_DENOM) (\<lambda>fee.
     and_then (usub dx fee) (\<lambda>dx_to_pool.
     and_then (umul ry dx_to_pool) (\<lambda>num.
     and_then (uadd rx dx_to_pool) (\<lambda>den.
     and_then (udiv num den) (\<lambda>dy.
     and_then (asserts (dy < ry) ERR_INSUFFICIENT_LIQUIDITY) (\<lambda>_.
     Inr \<lparr>q_dy = dy, q_fee = fee\<rparr>))))))))))"

text \<open>
  \<open>sqrti\<close> is a function of the language: on a \<open>uint\<close> it returns the largest integer
  whose square is not above its argument, and it cannot fail. The name is reserved, so
  the \<open>define-read-only\<close> of a function \<open>sqrti\<close> at lines 119 to 132 is refused and
  the two calls \<open>(sqrti (* amount-x amount-y))\<close>, in \<open>quote-add-liquidity\<close> and in
  \<open>initialize-pool\<close>, are calls of the language's function. It is computed here two
  bits at a time; \<open>sqrti_floor\<close> and \<open>sqrti_unique\<close> below show that the result is
  the floor of the square root.
\<close>

fun sqrti :: "nat \<Rightarrow> nat" where
  "sqrti n =
     (if n = 0 then 0
      else let r = 2 * sqrti (n div 4) in if (r + 1) * (r + 1) \<le> n then r + 1 else r)"

declare sqrti.simps [simp del]

definition quote_y_for_x :: "nat \<Rightarrow> 'w state \<Rightarrow> (nat \<times> nat) res" where
  \<comment> \<open>the result is the pair \<open>(dx, fee)\<close>\<close>
  "quote_y_for_x dy s =
    (let rx = reserve_x s; ry = reserve_y s in
     and_then (asserts (dy > 0) ERR_ZERO_INPUT) (\<lambda>_.
     and_then (asserts (rx > 0 \<and> ry > 0) ERR_ZERO_RESERVES) (\<lambda>_.
     and_then (umul dy FEE_BPS) (\<lambda>t.
     and_then (udiv t BPS_DENOM) (\<lambda>fee.
     and_then (usub dy fee) (\<lambda>dy_to_pool.
     and_then (umul rx dy_to_pool) (\<lambda>num.
     and_then (uadd ry dy_to_pool) (\<lambda>den.
     and_then (udiv num den) (\<lambda>dx.
     and_then (asserts (dx < rx) ERR_INSUFFICIENT_LIQUIDITY) (\<lambda>_.
     Inr (dx, fee)))))))))))"

record liquidity_quote =
  lq_shares :: nat
  lq_optimal_x :: nat
  lq_optimal_y :: nat

definition quote_add_liquidity :: "nat \<Rightarrow> nat \<Rightarrow> 'w state \<Rightarrow> liquidity_quote res" where
  "quote_add_liquidity amount_x amount_y s =
    (let rx = reserve_x s; ry = reserve_y s; supply = total_supply s in
     if supply = 0 then
       and_then (umul amount_x amount_y) (\<lambda>p.
       Inr \<lparr>lq_shares = sqrti p, lq_optimal_x = amount_x, lq_optimal_y = amount_y\<rparr>)
     else
       and_then (umul amount_x supply) (\<lambda>px.
       and_then (udiv px rx) (\<lambda>shares_from_x.
       and_then (umul amount_y supply) (\<lambda>py.
       and_then (udiv py ry) (\<lambda>shares_from_y.
       let shares = (if shares_from_x < shares_from_y then shares_from_x else shares_from_y) in
       and_then (umul shares rx) (\<lambda>sx.
       and_then (udiv sx supply) (\<lambda>optimal_x.
       and_then (umul shares ry) (\<lambda>sy.
       and_then (udiv sy supply) (\<lambda>optimal_y.
       Inr \<lparr>lq_shares = shares, lq_optimal_x = optimal_x, lq_optimal_y = optimal_y\<rparr>)))))))))"

subsection \<open>Swaps\<close>

record swap_result =
  sw_dx :: nat
  sw_dy :: nat
  sw_fee :: nat
  sw_recipient :: principal

text \<open>
  The bindings of the outer \<open>let\<close> are evaluated first, in order; the last of them is
  the \<open>unwrap!\<close> of the fee recipient. The three \<open>asserts!\<close> of the body follow.
\<close>

definition swap_x_for_y ::
  "'w env \<Rightarrow> token \<Rightarrow> token \<Rightarrow> nat \<Rightarrow> nat \<Rightarrow> principal \<Rightarrow> nat \<Rightarrow> 'w state
     \<Rightarrow> (swap_result \<times> 'w state) res" where
  "swap_x_for_y env token_x token_y dx min_dy recipient deadline s =
    (let rx = reserve_x s; ry = reserve_y s; sender = tx_sender env in
     and_then (unwrap (fee_recipient s) ERR_NOT_INITIALIZED) (\<lambda>fee_addr.
     and_then (asserts (stacks_block_height env \<le> deadline) ERR_DEADLINE_EXPIRED) (\<lambda>_.
     and_then (asserts (dx > 0) ERR_ZERO_INPUT) (\<lambda>_.
     and_then (asserts (rx > 0 \<and> ry > 0) ERR_ZERO_RESERVES) (\<lambda>_.
     and_then (umul dx FEE_BPS) (\<lambda>t.
     and_then (udiv t BPS_DENOM) (\<lambda>fee.
     and_then (usub dx fee) (\<lambda>dx_to_pool.
     and_then (umul ry dx_to_pool) (\<lambda>num.
     and_then (uadd rx dx_to_pool) (\<lambda>den.
     and_then (udiv num den) (\<lambda>dy.
     and_then (asserts (dy \<ge> min_dy) ERR_SLIPPAGE_EXCEEDED) (\<lambda>_.
     and_then (asserts (dy < ry) ERR_INSUFFICIENT_LIQUIDITY) (\<lambda>_.
     and_then (if fee > 0 \<and> sender \<noteq> fee_addr
               then unwrap_transfer (ft_transfer env token_x fee sender fee_addr (tokens s))
                      ERR_FEE_TRANSFER_FAILED
               else Inr (tokens s)) (\<lambda>w1.
     and_then (unwrap_transfer
                 (ft_transfer env token_x dx_to_pool sender (contract_principal env) w1)
                 ERR_TRANSFER_X_FAILED) (\<lambda>w2.
     and_then (unwrap_transfer
                 (ft_transfer env token_y dy (contract_principal env) recipient w2)
                 ERR_TRANSFER_Y_FAILED) (\<lambda>w3.
     and_then (uadd rx dx_to_pool) (\<lambda>rx'.
     and_then (usub ry dy) (\<lambda>ry'.
     and_then (uadd (total_fees_x s) fee) (\<lambda>fees'.
     Inr (\<lparr>sw_dx = dx, sw_dy = dy, sw_fee = fee, sw_recipient = recipient\<rparr>,
          s\<lparr>reserve_x := rx', reserve_y := ry', total_fees_x := fees',
            tokens := w3\<rparr>))))))))))))))))))))"

definition swap_y_for_x ::
  "'w env \<Rightarrow> token \<Rightarrow> token \<Rightarrow> nat \<Rightarrow> nat \<Rightarrow> principal \<Rightarrow> nat \<Rightarrow> 'w state
     \<Rightarrow> (swap_result \<times> 'w state) res" where
  "swap_y_for_x env token_x token_y dy min_dx recipient deadline s =
    (let rx = reserve_x s; ry = reserve_y s; sender = tx_sender env in
     and_then (unwrap (fee_recipient s) ERR_NOT_INITIALIZED) (\<lambda>fee_addr.
     and_then (asserts (stacks_block_height env \<le> deadline) ERR_DEADLINE_EXPIRED) (\<lambda>_.
     and_then (asserts (dy > 0) ERR_ZERO_INPUT) (\<lambda>_.
     and_then (asserts (rx > 0 \<and> ry > 0) ERR_ZERO_RESERVES) (\<lambda>_.
     and_then (umul dy FEE_BPS) (\<lambda>t.
     and_then (udiv t BPS_DENOM) (\<lambda>fee.
     and_then (usub dy fee) (\<lambda>dy_to_pool.
     and_then (umul rx dy_to_pool) (\<lambda>num.
     and_then (uadd ry dy_to_pool) (\<lambda>den.
     and_then (udiv num den) (\<lambda>dx.
     and_then (asserts (dx \<ge> min_dx) ERR_SLIPPAGE_EXCEEDED) (\<lambda>_.
     and_then (asserts (dx < rx) ERR_INSUFFICIENT_LIQUIDITY) (\<lambda>_.
     and_then (if fee > 0 \<and> sender \<noteq> fee_addr
               then unwrap_transfer (ft_transfer env token_y fee sender fee_addr (tokens s))
                      ERR_FEE_TRANSFER_FAILED
               else Inr (tokens s)) (\<lambda>w1.
     and_then (unwrap_transfer
                 (ft_transfer env token_y dy_to_pool sender (contract_principal env) w1)
                 ERR_TRANSFER_Y_FAILED) (\<lambda>w2.
     and_then (unwrap_transfer
                 (ft_transfer env token_x dx (contract_principal env) recipient w2)
                 ERR_TRANSFER_X_FAILED) (\<lambda>w3.
     and_then (usub rx dx) (\<lambda>rx'.
     and_then (uadd ry dy_to_pool) (\<lambda>ry'.
     and_then (uadd (total_fees_y s) fee) (\<lambda>fees'.
     Inr (\<lparr>sw_dx = dx, sw_dy = dy, sw_fee = fee, sw_recipient = recipient\<rparr>,
          s\<lparr>reserve_x := rx', reserve_y := ry', total_fees_y := fees',
            tokens := w3\<rparr>))))))))))))))))))))"

subsection \<open>Liquidity\<close>

record liquidity_result =
  lr_shares :: nat
  lr_x :: nat
  lr_y :: nat

definition initialize_pool ::
  "'w env \<Rightarrow> token \<Rightarrow> token \<Rightarrow> nat \<Rightarrow> nat \<Rightarrow> 'w state
     \<Rightarrow> (liquidity_result \<times> 'w state) res" where
  "initialize_pool env token_x token_y amount_x amount_y s =
    (let sender = tx_sender env in
     and_then (asserts (reserve_x s = 0 \<and> reserve_y s = 0) ERR_ALREADY_INITIALIZED) (\<lambda>_.
     and_then (asserts (amount_x > 0 \<and> amount_y > 0) ERR_ZERO_INPUT) (\<lambda>_.
     and_then (umul amount_x amount_y) (\<lambda>p.
     let shares = sqrti p in
     and_then (asserts (shares > MINIMUM_LIQUIDITY) ERR_MIN_LIQUIDITY) (\<lambda>_.
     let s1 = s\<lparr>fee_recipient := Some sender\<rparr> in
     and_then (unwrap_transfer
                 (ft_transfer env token_x amount_x sender (contract_principal env) (tokens s1))
                 ERR_TRANSFER_X_FAILED) (\<lambda>w1.
     and_then (unwrap_transfer
                 (ft_transfer env token_y amount_y sender (contract_principal env) w1)
                 ERR_TRANSFER_Y_FAILED) (\<lambda>w2.
     Inr (\<lparr>lr_shares = shares, lr_x = amount_x, lr_y = amount_y\<rparr>,
          s1\<lparr>reserve_x := amount_x, reserve_y := amount_y, total_supply := shares,
             lp_balances := (lp_balances s1)(sender \<mapsto> shares),
             tokens := w2\<rparr>))))))))"

definition add_liquidity ::
  "'w env \<Rightarrow> token \<Rightarrow> token \<Rightarrow> nat \<Rightarrow> nat \<Rightarrow> nat \<Rightarrow> 'w state
     \<Rightarrow> (liquidity_result \<times> 'w state) res" where
  "add_liquidity env token_x token_y amount_x amount_y min_shares s =
    (let rx = reserve_x s; ry = reserve_y s; supply = total_supply s; sender = tx_sender env in
     and_then (asserts (supply > 0) ERR_NOT_INITIALIZED) (\<lambda>_.
     and_then (asserts (amount_x > 0 \<and> amount_y > 0) ERR_ZERO_INPUT) (\<lambda>_.
     and_then (umul amount_x supply) (\<lambda>px.
     and_then (udiv px rx) (\<lambda>shares_from_x.
     and_then (umul amount_y supply) (\<lambda>py.
     and_then (udiv py ry) (\<lambda>shares_from_y.
     let shares = (if shares_from_x < shares_from_y then shares_from_x else shares_from_y) in
     and_then (umul shares rx) (\<lambda>sx.
     and_then (udiv sx supply) (\<lambda>actual_x.
     and_then (umul shares ry) (\<lambda>sy.
     and_then (udiv sy supply) (\<lambda>actual_y.
     and_then (asserts (shares \<ge> min_shares) ERR_SLIPPAGE_EXCEEDED) (\<lambda>_.
     and_then (asserts (shares > 0) ERR_ZERO_SHARES) (\<lambda>_.
     and_then (unwrap_transfer
                 (ft_transfer env token_x actual_x sender (contract_principal env) (tokens s))
                 ERR_TRANSFER_X_FAILED) (\<lambda>w1.
     and_then (unwrap_transfer
                 (ft_transfer env token_y actual_y sender (contract_principal env) w1)
                 ERR_TRANSFER_Y_FAILED) (\<lambda>w2.
     and_then (uadd rx actual_x) (\<lambda>rx'.
     and_then (uadd ry actual_y) (\<lambda>ry'.
     and_then (uadd supply shares) (\<lambda>supply'.
     and_then (uadd (get_lp_balance s sender) shares) (\<lambda>balance'.
     Inr (\<lparr>lr_shares = shares, lr_x = actual_x, lr_y = actual_y\<rparr>,
          s\<lparr>reserve_x := rx', reserve_y := ry', total_supply := supply',
            lp_balances := (lp_balances s)(sender \<mapsto> balance'),
            tokens := w2\<rparr>))))))))))))))))))))"

definition remove_liquidity ::
  "'w env \<Rightarrow> token \<Rightarrow> token \<Rightarrow> nat \<Rightarrow> nat \<Rightarrow> nat \<Rightarrow> 'w state
     \<Rightarrow> (liquidity_result \<times> 'w state) res" where
  "remove_liquidity env token_x token_y shares min_x min_y s =
    (let rx = reserve_x s; ry = reserve_y s; supply = total_supply s; sender = tx_sender env;
         user_balance = get_lp_balance s sender in
     and_then (asserts (supply > 0) ERR_NOT_INITIALIZED) (\<lambda>_.
     and_then (asserts (shares > 0) ERR_ZERO_INPUT) (\<lambda>_.
     and_then (asserts (user_balance \<ge> shares) ERR_INSUFFICIENT_LP_BALANCE) (\<lambda>_.
     and_then (umul shares rx) (\<lambda>sx.
     and_then (udiv sx supply) (\<lambda>amount_x.
     and_then (umul shares ry) (\<lambda>sy.
     and_then (udiv sy supply) (\<lambda>amount_y.
     and_then (asserts (amount_x \<ge> min_x) ERR_SLIPPAGE_EXCEEDED) (\<lambda>_.
     and_then (asserts (amount_y \<ge> min_y) ERR_SLIPPAGE_EXCEEDED) (\<lambda>_.
     and_then (unwrap_transfer
                 (ft_transfer env token_x amount_x (contract_principal env) sender (tokens s))
                 ERR_TRANSFER_X_FAILED) (\<lambda>w1.
     and_then (unwrap_transfer
                 (ft_transfer env token_y amount_y (contract_principal env) sender w1)
                 ERR_TRANSFER_Y_FAILED) (\<lambda>w2.
     and_then (usub rx amount_x) (\<lambda>rx'.
     and_then (usub ry amount_y) (\<lambda>ry'.
     and_then (usub supply shares) (\<lambda>supply'.
     and_then (usub user_balance shares) (\<lambda>balance'.
     Inr (\<lparr>lr_shares = shares, lr_x = amount_x, lr_y = amount_y\<rparr>,
          s\<lparr>reserve_x := rx', reserve_y := ry', total_supply := supply',
            lp_balances := (lp_balances s)(sender \<mapsto> balance'),
            tokens := w2\<rparr>)))))))))))))))))"

subsection \<open>Bulk operations\<close>

text \<open>
  Each bulk function maps a private function over the list; the private function calls
  the public single operation. A public function called from inside the contract runs
  like any other call of it: when it answers \<open>(err u)\<close> its own changes are discarded
  and \<open>(err u)\<close> is its value, an element of the list that \<open>map\<close> builds; the next
  item then runs on the state as the last successful item left it. Only a runtime error
  ends the whole transaction. The bulk function wraps the list of responses in \<open>ok\<close>.
\<close>

datatype 'a response = Ok 'a | Error nat

fun map_responses ::
  "('a \<Rightarrow> 'w state \<Rightarrow> ('r \<times> 'w state) res) \<Rightarrow> 'a list \<Rightarrow> 'w state
     \<Rightarrow> ('r response list \<times> 'w state) res" where
  "map_responses f [] s = Inr ([], s)"
| "map_responses f (x # xs) s =
     (case f x s of
        Inl (Abort e) \<Rightarrow> Inl (Abort e)
      | Inl (Err u) \<Rightarrow>
          and_then (map_responses f xs s) (\<lambda>(rs, s'). Inr (Error u # rs, s'))
      | Inr (r, s1) \<Rightarrow>
          and_then (map_responses f xs s1) (\<lambda>(rs, s'). Inr (Ok r # rs, s')))"

record swap_x_data =
  sxd_token_x :: token
  sxd_token_y :: token
  sxd_dx :: nat
  sxd_min_dy :: nat
  sxd_recipient :: principal
  sxd_deadline :: nat

definition bulk_swap_x_for_y_internal ::
  "'w env \<Rightarrow> swap_x_data \<Rightarrow> 'w state \<Rightarrow> (swap_result \<times> 'w state) res" where
  "bulk_swap_x_for_y_internal env swap_data s =
     swap_x_for_y env (sxd_token_x swap_data) (sxd_token_y swap_data) (sxd_dx swap_data)
       (sxd_min_dy swap_data) (sxd_recipient swap_data) (sxd_deadline swap_data) s"

definition bulk_swap_x_for_y ::
  "'w env \<Rightarrow> swap_x_data list \<Rightarrow> 'w state \<Rightarrow> (swap_result response list \<times> 'w state) res" where
  "bulk_swap_x_for_y env swaps s =
     and_then (asserts (length swaps > 0) ERR_ZERO_INPUT) (\<lambda>_.
     map_responses (bulk_swap_x_for_y_internal env) swaps s)"

record swap_y_data =
  syd_token_x :: token
  syd_token_y :: token
  syd_dy :: nat
  syd_min_dx :: nat
  syd_recipient :: principal
  syd_deadline :: nat

definition bulk_swap_y_for_x_internal ::
  "'w env \<Rightarrow> swap_y_data \<Rightarrow> 'w state \<Rightarrow> (swap_result \<times> 'w state) res" where
  "bulk_swap_y_for_x_internal env swap_data s =
     swap_y_for_x env (syd_token_x swap_data) (syd_token_y swap_data) (syd_dy swap_data)
       (syd_min_dx swap_data) (syd_recipient swap_data) (syd_deadline swap_data) s"

definition bulk_swap_y_for_x ::
  "'w env \<Rightarrow> swap_y_data list \<Rightarrow> 'w state \<Rightarrow> (swap_result response list \<times> 'w state) res" where
  "bulk_swap_y_for_x env swaps s =
     and_then (asserts (length swaps > 0) ERR_ZERO_INPUT) (\<lambda>_.
     map_responses (bulk_swap_y_for_x_internal env) swaps s)"

record add_data =
  ad_token_x :: token
  ad_token_y :: token
  ad_amount_x :: nat
  ad_amount_y :: nat
  ad_min_shares :: nat

definition bulk_add_liquidity_internal ::
  "'w env \<Rightarrow> add_data \<Rightarrow> 'w state \<Rightarrow> (liquidity_result \<times> 'w state) res" where
  "bulk_add_liquidity_internal env liquidity_data s =
     add_liquidity env (ad_token_x liquidity_data) (ad_token_y liquidity_data)
       (ad_amount_x liquidity_data) (ad_amount_y liquidity_data)
       (ad_min_shares liquidity_data) s"

definition bulk_add_liquidity ::
  "'w env \<Rightarrow> add_data list \<Rightarrow> 'w state
     \<Rightarrow> (liquidity_result response list \<times> 'w state) res" where
  "bulk_add_liquidity env liquidity_additions s =
     and_then (asserts (length liquidity_additions > 0) ERR_ZERO_INPUT) (\<lambda>_.
     map_responses (bulk_add_liquidity_internal env) liquidity_additions s)"

record remove_data =
  rd_token_x :: token
  rd_token_y :: token
  rd_shares :: nat
  rd_min_x :: nat
  rd_min_y :: nat

definition bulk_remove_liquidity_internal ::
  "'w env \<Rightarrow> remove_data \<Rightarrow> 'w state \<Rightarrow> (liquidity_result \<times> 'w state) res" where
  "bulk_remove_liquidity_internal env removal_data s =
     remove_liquidity env (rd_token_x removal_data) (rd_token_y removal_data)
       (rd_shares removal_data) (rd_min_x removal_data) (rd_min_y removal_data) s"

definition bulk_remove_liquidity ::
  "'w env \<Rightarrow> remove_data list \<Rightarrow> 'w state
     \<Rightarrow> (liquidity_result response list \<times> 'w state) res" where
  "bulk_remove_liquidity env liquidity_removals s =
     and_then (asserts (length liquidity_removals > 0) ERR_ZERO_INPUT) (\<lambda>_.
     map_responses (bulk_remove_liquidity_internal env) liquidity_removals s)"

subsection \<open>The states the contract can be in\<close>

text \<open>The state at deployment: every variable at its declared initial value, no map entry.\<close>

definition initial_state :: "'w \<Rightarrow> 'w state" where
  "initial_state w =
     \<lparr>fee_recipient = None, reserve_x = 0, reserve_y = 0, total_supply = 0,
      total_fees_x = 0, total_fees_y = 0, lp_balances = Map.empty, tokens = w\<rparr>"

text \<open>
  A state is reachable when a sequence of successful public calls leads to it from the
  state at deployment. A call that fails leaves the state as it was. The caller, the block
  height and the behaviour of the tokens are arbitrary at every call; the lists of the
  bulk functions have at most 10 (swaps) or 5 (liquidity) items, as their types say.
  The token contracts can also change on their own.
\<close>

inductive reachable :: "'w state \<Rightarrow> bool" where
  deployed: "reachable (initial_state w)"
| tokens_changed: "reachable s \<Longrightarrow> reachable (s\<lparr>tokens := w\<rparr>)"
| initialized:
    "reachable s \<Longrightarrow> initialize_pool env tx ty ax ay s = Inr (r, s') \<Longrightarrow> reachable s'"
| swapped_x:
    "reachable s \<Longrightarrow> swap_x_for_y env tx ty dx m rc dl s = Inr (sr, s') \<Longrightarrow> reachable s'"
| swapped_y:
    "reachable s \<Longrightarrow> swap_y_for_x env tx ty dy m rc dl s = Inr (sr, s') \<Longrightarrow> reachable s'"
| added:
    "reachable s \<Longrightarrow> add_liquidity env tx ty ax ay ms s = Inr (r, s') \<Longrightarrow> reachable s'"
| removed:
    "reachable s \<Longrightarrow> remove_liquidity env tx ty sh mx my s = Inr (r, s') \<Longrightarrow> reachable s'"
| bulk_swapped_x:
    "reachable s \<Longrightarrow> length xs \<le> 10 \<Longrightarrow> bulk_swap_x_for_y env xs s = Inr (srs, s')
       \<Longrightarrow> reachable s'"
| bulk_swapped_y:
    "reachable s \<Longrightarrow> length ys \<le> 10 \<Longrightarrow> bulk_swap_y_for_x env ys s = Inr (srs, s')
       \<Longrightarrow> reachable s'"
| bulk_added:
    "reachable s \<Longrightarrow> length ads \<le> 5 \<Longrightarrow> bulk_add_liquidity env ads s = Inr (rs, s')
       \<Longrightarrow> reachable s'"
| bulk_removed:
    "reachable s \<Longrightarrow> length rms \<le> 5 \<Longrightarrow> bulk_remove_liquidity env rms s = Inr (rs, s')
       \<Longrightarrow> reachable s'"

text \<open>The sum of the share balances over all accounts that have a map entry.\<close>

definition sum_shares :: "(principal \<rightharpoonup> nat) \<Rightarrow> nat" where
  "sum_shares m = (\<Sum>p \<in> dom m. the (m p))"

subsection \<open>The square root of lines 119 to 132\<close>

text \<open>
  The body of the refused \<open>define-read-only\<close>, with the checked arithmetic of the
  language. The source writes the refinement \<open>(/ (+ x (/ n x)) u2)\<close> seven times, for
  \<open>x1\<close> to \<open>x7\<close>; \<open>newton_step\<close> is that expression. No function of the contract
  reaches this body.
\<close>

definition newton_step :: "nat \<Rightarrow> nat \<Rightarrow> nat res" where
  "newton_step n x =
     and_then (udiv n x) (\<lambda>q. and_then (uadd x q) (\<lambda>t. udiv t 2))"

definition sqrti_define :: "nat \<Rightarrow> nat res" where
  "sqrti_define n =
    (if n \<le> 1 then Inr n
     else if n \<le> 3 then Inr 1
     else
       and_then (udiv n 2) (\<lambda>x0.
       and_then (newton_step n x0) (\<lambda>x1.
       and_then (newton_step n x1) (\<lambda>x2.
       and_then (newton_step n x2) (\<lambda>x3.
       and_then (newton_step n x3) (\<lambda>x4.
       and_then (newton_step n x4) (\<lambda>x5.
       and_then (newton_step n x5) (\<lambda>x6.
       and_then (newton_step n x6) (\<lambda>x7.
       and_then (umul x7 x7) (\<lambda>sq.
       if sq \<le> n then Inr x7 else usub x7 1))))))))))"

text \<open>
  The same computation as the specification words it: \<open>x0 = n/2\<close> and
  \<open>x_{k+1} = (x_k + n/x_k)/2\<close> in truncating division on unbounded naturals; the
  result is \<open>x7\<close> if \<open>x7*x7 <= n\<close>, else \<open>x7 - 1\<close>.
\<close>

fun newton_x :: "nat \<Rightarrow> nat \<Rightarrow> nat" where
  "newton_x n 0 = n div 2"
| "newton_x n (Suc k) = (newton_x n k + n div newton_x n k) div 2"

definition isqrt_spec :: "nat \<Rightarrow> nat" where
  "isqrt_spec n =
     (if n \<le> 1 then n
      else if n \<le> 3 then 1
      else if newton_x n 7 * newton_x n 7 \<le> n then newton_x n 7 else newton_x n 7 - 1)"

text \<open>
  What holds of every reachable state: finitely many accounts have a balance entry, the
  balances add up to \<open>total-supply\<close>, and the two reserves and \<open>total-supply\<close> are
  either all zero or all positive.
\<close>

definition pool_inv :: "'w state \<Rightarrow> bool" where
  "pool_inv s \<longleftrightarrow>
     finite (dom (lp_balances s)) \<and>
     sum_shares (lp_balances s) = total_supply s \<and>
     (total_supply s = 0 \<and> reserve_x s = 0 \<and> reserve_y s = 0 \<or>
      0 < total_supply s \<and> 0 < reserve_x s \<and> 0 < reserve_y s)"

subsection \<open>The set-up of the test suite\<close>

text \<open>
  The tests run at some block height with tokens whose transfers succeed; the deployer
  initializes the pool with \<open>(100000000, 200000000)\<close>. \<open>test_pool\<close> is the state this
  leaves (\<open>initialize_pool_100_200\<close> below).
\<close>

definition test_env :: "principal \<Rightarrow> unit env" where
  "test_env caller =
     \<lparr>tx_sender = caller, contract_principal = ''pool-v5'', stacks_block_height = 10,
      ft_transfer = (\<lambda>tok amount sender recipient w. Inr w)\<rparr>"

definition test_pool :: "unit state" where
  "test_pool =
     \<lparr>fee_recipient = Some ''deployer'', reserve_x = 100000000, reserve_y = 200000000,
      total_supply = 141421356, total_fees_x = 0, total_fees_y = 0,
      lp_balances = [''deployer'' \<mapsto> 141421356], tokens = ()\<rparr>"

section \<open>Properties\<close>

subsection \<open>Successful calls\<close>

text \<open>
  When a sequence of steps succeeds, each step has succeeded; for each public function
  this gives the conditions under which it succeeds, its value and the state it leaves.
\<close>

lemma and_then_Inr_iff: "and_then m f = Inr r \<longleftrightarrow> (\<exists>v. m = Inr v \<and> f v = Inr r)"
  by (cases m) (simp_all add: and_then_def)

lemma asserts_Inr_iff: "asserts b e = Inr u \<longleftrightarrow> b"
  by (simp add: asserts_def)

lemma unwrap_Inr_iff: "unwrap v e = Inr x \<longleftrightarrow> v = Some x"
  by (cases v) (simp_all add: unwrap_def)

lemma uadd_Inr_iff: "uadd a b = Inr c \<longleftrightarrow> a + b \<le> uint_max \<and> c = a + b"
  by (auto simp: uadd_def)

lemma usub_Inr_iff: "usub a b = Inr c \<longleftrightarrow> b \<le> a \<and> c = a - b"
  by (auto simp: usub_def)

lemma umul_Inr_iff: "umul a b = Inr c \<longleftrightarrow> a * b \<le> uint_max \<and> c = a * b"
  by (auto simp: umul_def)

lemma udiv_Inr_iff: "udiv a b = Inr c \<longleftrightarrow> b \<noteq> 0 \<and> c = a div b"
  by (auto simp: udiv_def)

lemma unwrap_transfer_Inr_iff: "unwrap_transfer r code = Inr w \<longleftrightarrow> r = Inr w"
  by (auto simp: unwrap_transfer_def split: sum.splits failure.splits)

lemmas ok_iffs = and_then_Inr_iff asserts_Inr_iff unwrap_Inr_iff uadd_Inr_iff usub_Inr_iff
  umul_Inr_iff udiv_Inr_iff unwrap_transfer_Inr_iff

text \<open>The arithmetic of a swap: rounding the output down keeps the product.\<close>

lemma constant_product_mono:
  fixes rx ry net :: nat
  shows "rx * ry \<le> (rx + net) * (ry - (ry * net) div (rx + net))"
proof -
  let ?d = "rx + net"
  let ?dy = "(ry * net) div ?d"
  have "?d * ?dy \<le> ry * net"
    by simp
  moreover have "?d * (ry - ?dy) = ?d * ry - ?d * ?dy"
    by (simp add: diff_mult_distrib2)
  moreover have "?d * ry = rx * ry + ry * net"
    by (simp add: algebra_simps)
  ultimately show ?thesis
    by linarith
qed

lemma swap_x_for_y_okD:
  assumes "swap_x_for_y env tx ty dx m rc dl s = Inr (sr, s')"
  shows "\<exists>fee net dy w. fee = dx * 30 div 10000 \<and> net = dx - fee \<and>
           dy = (reserve_y s * net) div (reserve_x s + net) \<and>
           0 < dx \<and> 0 < reserve_x s \<and> 0 < reserve_y s \<and> dy < reserve_y s \<and> m \<le> dy \<and>
           fee_recipient s \<noteq> None \<and> stacks_block_height env \<le> dl \<and>
           sr = \<lparr>sw_dx = dx, sw_dy = dy, sw_fee = fee, sw_recipient = rc\<rparr> \<and>
           s' = s\<lparr>reserve_x := reserve_x s + net, reserve_y := reserve_y s - dy,
                  total_fees_x := total_fees_x s + fee, tokens := w\<rparr>"
  using assms unfolding swap_x_for_y_def Let_def
  by (auto simp: ok_iffs)




lemma swap_y_for_x_okD:
  assumes "swap_y_for_x env tx ty dy m rc dl s = Inr (sr, s')"
  shows "\<exists>fee net dx w. fee = dy * 30 div 10000 \<and> net = dy - fee \<and>
           dx = (reserve_x s * net) div (reserve_y s + net) \<and>
           0 < dy \<and> 0 < reserve_x s \<and> 0 < reserve_y s \<and> dx < reserve_x s \<and> m \<le> dx \<and>
           fee_recipient s \<noteq> None \<and> stacks_block_height env \<le> dl \<and>
           sr = \<lparr>sw_dx = dx, sw_dy = dy, sw_fee = fee, sw_recipient = rc\<rparr> \<and>
           s' = s\<lparr>reserve_x := reserve_x s - dx, reserve_y := reserve_y s + net,
                  total_fees_y := total_fees_y s + fee, tokens := w\<rparr>"
  using assms unfolding swap_y_for_x_def Let_def
  by (auto simp: ok_iffs)



lemma initialize_pool_okD:
  assumes "initialize_pool env tx ty ax ay s = Inr (r, s')"
  shows "\<exists>shares w. shares = sqrti (ax * ay) \<and> ax * ay \<le> uint_max \<and> 1000 < shares \<and>
           reserve_x s = 0 \<and> reserve_y s = 0 \<and> 0 < ax \<and> 0 < ay \<and>
           r = \<lparr>lr_shares = shares, lr_x = ax, lr_y = ay\<rparr> \<and>
           s' = s\<lparr>fee_recipient := Some (tx_sender env), reserve_x := ax, reserve_y := ay,
                  total_supply := shares,
                  lp_balances := (lp_balances s)(tx_sender env \<mapsto> shares), tokens := w\<rparr>"
  using assms unfolding initialize_pool_def Let_def
  by (auto simp: ok_iffs)



lemma add_liquidity_okD:
  assumes "add_liquidity env tx ty ax ay ms s = Inr (r, s')"
  shows "\<exists>shares actual_x actual_y w.
           shares = min (ax * total_supply s div reserve_x s) (ay * total_supply s div reserve_y s) \<and>
           actual_x = shares * reserve_x s div total_supply s \<and>
           actual_y = shares * reserve_y s div total_supply s \<and>
           0 < total_supply s \<and> 0 < ax \<and> 0 < ay \<and> reserve_x s \<noteq> 0 \<and> reserve_y s \<noteq> 0 \<and>
           ms \<le> shares \<and> 0 < shares \<and>
           r = \<lparr>lr_shares = shares, lr_x = actual_x, lr_y = actual_y\<rparr> \<and>
           s' = s\<lparr>reserve_x := reserve_x s + actual_x, reserve_y := reserve_y s + actual_y,
                  total_supply := total_supply s + shares,
                  lp_balances := (lp_balances s)(tx_sender env \<mapsto>
                                    get_lp_balance s (tx_sender env) + shares),
                  tokens := w\<rparr>"
proof -
  have m: "(if a < b then a else b) = min a b" for a b :: nat
    by (simp add: min_def)
  show ?thesis
    using assms unfolding add_liquidity_def Let_def m
    by (simp add: ok_iffs) blast
qed


lemma remove_liquidity_okD:
  assumes "remove_liquidity env tx ty sh mx my s = Inr (r, s')"
  shows "\<exists>amount_x amount_y w.
           amount_x = sh * reserve_x s div total_supply s \<and>
           amount_y = sh * reserve_y s div total_supply s \<and>
           0 < total_supply s \<and> 0 < sh \<and> sh \<le> get_lp_balance s (tx_sender env) \<and>
           mx \<le> amount_x \<and> my \<le> amount_y \<and>
           amount_x \<le> reserve_x s \<and> amount_y \<le> reserve_y s \<and> sh \<le> total_supply s \<and>
           r = \<lparr>lr_shares = sh, lr_x = amount_x, lr_y = amount_y\<rparr> \<and>
           s' = s\<lparr>reserve_x := reserve_x s - amount_x, reserve_y := reserve_y s - amount_y,
                  total_supply := total_supply s - sh,
                  lp_balances := (lp_balances s)(tx_sender env \<mapsto>
                                    get_lp_balance s (tx_sender env) - sh),
                  tokens := w\<rparr>"
  using assms unfolding remove_liquidity_def Let_def
  by (auto simp: ok_iffs)





subsection \<open>Share accounting and the invariant\<close>

text \<open>
  Writing one balance changes the sum by the difference between the new and the old
  balance; a balance is at most the sum.
\<close>

lemma sum_shares_upd:
  assumes "finite (dom m)"
  shows "sum_shares (m(k \<mapsto> v)) + (case m k of None \<Rightarrow> 0 | Some b \<Rightarrow> b) = sum_shares m + v"
proof -
  let ?D = "dom m - {k}"
  have fin: "finite ?D" using assms by simp
  have new: "sum_shares (m(k \<mapsto> v)) = v + (\<Sum>p \<in> ?D. the (m p))"
  proof -
    have "sum_shares (m(k \<mapsto> v)) = (\<Sum>p \<in> insert k (dom m). the ((m(k \<mapsto> v)) p))"
      by (simp add: sum_shares_def)
    also have "\<dots> = the ((m(k \<mapsto> v)) k) + (\<Sum>p \<in> ?D. the ((m(k \<mapsto> v)) p))"
      using assms by (rule sum.insert_remove)
    also have "the ((m(k \<mapsto> v)) k) = v"
      by simp
    also have "(\<Sum>p \<in> ?D. the ((m(k \<mapsto> v)) p)) = (\<Sum>p \<in> ?D. the (m p))"
      by (rule sum.cong) auto
    finally show ?thesis .
  qed
  have old: "sum_shares m = (case m k of None \<Rightarrow> 0 | Some b \<Rightarrow> b) + (\<Sum>p \<in> ?D. the (m p))"
  proof (cases "m k")
    case None
    then have "dom m = ?D" by auto
    with None show ?thesis by (simp add: sum_shares_def)
  next
    case (Some b)
    then have "k \<in> dom m" by auto
    then have "(\<Sum>p \<in> dom m. the (m p)) = the (m k) + (\<Sum>p \<in> ?D. the (m p))"
      using assms by (simp add: sum.remove)
    with Some show ?thesis by (simp add: sum_shares_def)
  qed
  show ?thesis using new old by simp
qed

lemma balance_le_sum_shares:
  assumes "finite (dom m)"
  shows "(case m k of None \<Rightarrow> 0 | Some b \<Rightarrow> b) \<le> sum_shares m"
proof (cases "m k")
  case None
  then show ?thesis by simp
next
  case (Some b)
  then have "k \<in> dom m" by auto
  then have "the (m k) \<le> (\<Sum>p \<in> dom m. the (m p))"
    using assms by (intro member_le_sum) auto
  with Some show ?thesis by (simp add: sum_shares_def)
qed

text \<open>The invariant holds at deployment and every successful call keeps it.\<close>

lemma pool_inv_initial: "pool_inv (initial_state w)"
  by (simp add: pool_inv_def initial_state_def sum_shares_def)

lemma pool_inv_tokens: "pool_inv (s\<lparr>tokens := w\<rparr>) = pool_inv s"
  by (simp add: pool_inv_def)

lemma pool_inv_swap_x:
  assumes "pool_inv s" "swap_x_for_y env tx ty dx m rc dl s = Inr (sr, s')"
  shows "pool_inv s'"
proof -
  from swap_x_for_y_okD [OF assms(2)] obtain fee net dy w where
    pos: "0 < reserve_x s" "0 < reserve_y s" "dy < reserve_y s" and
    s': "s' = s\<lparr>reserve_x := reserve_x s + net, reserve_y := reserve_y s - dy,
                  total_fees_x := total_fees_x s + fee, tokens := w\<rparr>"
    by blast
  with assms(1) show ?thesis
    by (simp add: pool_inv_def)
qed

lemma pool_inv_swap_y:
  assumes "pool_inv s" "swap_y_for_x env tx ty dy m rc dl s = Inr (sr, s')"
  shows "pool_inv s'"
proof -
  from swap_y_for_x_okD [OF assms(2)] obtain fee net dx w where
    pos: "0 < reserve_x s" "0 < reserve_y s" "dx < reserve_x s" and
    s': "s' = s\<lparr>reserve_x := reserve_x s - dx, reserve_y := reserve_y s + net,
                  total_fees_y := total_fees_y s + fee, tokens := w\<rparr>"
    by blast
  with assms(1) show ?thesis
    by (simp add: pool_inv_def)
qed

lemma pool_inv_initialize:
  assumes "pool_inv s" "initialize_pool env tx ty ax ay s = Inr (r, s')"
  shows "pool_inv s'"
proof -
  from initialize_pool_okD [OF assms(2)] obtain shares w where
    sh: "1000 < shares" and z: "reserve_x s = 0" "reserve_y s = 0" and pos: "0 < ax" "0 < ay" and
    s': "s' = s\<lparr>fee_recipient := Some (tx_sender env), reserve_x := ax, reserve_y := ay,
                  total_supply := shares,
                  lp_balances := (lp_balances s)(tx_sender env \<mapsto> shares), tokens := w\<rparr>"
    by blast
  from assms(1) z have fin: "finite (dom (lp_balances s))" and sum0: "sum_shares (lp_balances s) = 0"
    by (auto simp: pool_inv_def)
  have "(case lp_balances s (tx_sender env) of None \<Rightarrow> 0 | Some b \<Rightarrow> b) = 0"
    using balance_le_sum_shares [OF fin, of "tx_sender env"] sum0 by simp
  with sum_shares_upd [OF fin, of "tx_sender env" shares] sum0
  have "sum_shares ((lp_balances s)(tx_sender env \<mapsto> shares)) = shares"
    by simp
  with fin sh pos show ?thesis
    by (simp add: s' pool_inv_def)
qed

lemma pool_inv_add:
  assumes "pool_inv s" "add_liquidity env tx ty ax ay ms s = Inr (r, s')"
  shows "pool_inv s'"
proof -
  from add_liquidity_okD [OF assms(2)] obtain shares actual_x actual_y w where
    pos: "0 < total_supply s" "0 < shares" and
    s': "s' = s\<lparr>reserve_x := reserve_x s + actual_x, reserve_y := reserve_y s + actual_y,
                  total_supply := total_supply s + shares,
                  lp_balances := (lp_balances s)(tx_sender env \<mapsto>
                                    get_lp_balance s (tx_sender env) + shares),
                  tokens := w\<rparr>"
    by blast
  from assms(1) have fin: "finite (dom (lp_balances s))"
    and sum: "sum_shares (lp_balances s) = total_supply s"
    and rs: "0 < reserve_x s" "0 < reserve_y s"
    using pos by (auto simp: pool_inv_def)
  from sum_shares_upd [OF fin, of "tx_sender env" "get_lp_balance s (tx_sender env) + shares"]
  have "sum_shares ((lp_balances s)(tx_sender env \<mapsto> get_lp_balance s (tx_sender env) + shares))
          = total_supply s + shares"
    by (simp add: get_lp_balance_def sum)
  with fin pos rs show ?thesis
    by (simp add: s' pool_inv_def)
qed

lemma proportional_lt:
  fixes sh r t :: nat
  assumes "sh < t" "0 < r"
  shows "sh * r div t < r"
proof -
  have "sh * r < r * t" using assms by simp
  then show ?thesis
    using assms(1) by (simp add: div_less_iff_less_mult mult.commute)
qed

lemma pool_inv_remove:
  assumes "pool_inv s" "remove_liquidity env tx ty sh mx my s = Inr (r, s')"
  shows "pool_inv s'"
proof -
  from remove_liquidity_okD [OF assms(2)] obtain amount_x amount_y w where
    ax: "amount_x = sh * reserve_x s div total_supply s" and
    ay: "amount_y = sh * reserve_y s div total_supply s" and
    pos: "0 < total_supply s" "0 < sh" and bal: "sh \<le> get_lp_balance s (tx_sender env)" and
    s': "s' = s\<lparr>reserve_x := reserve_x s - amount_x, reserve_y := reserve_y s - amount_y,
                  total_supply := total_supply s - sh,
                  lp_balances := (lp_balances s)(tx_sender env \<mapsto>
                                    get_lp_balance s (tx_sender env) - sh),
                  tokens := w\<rparr>"
    by blast
  from assms(1) have fin: "finite (dom (lp_balances s))"
    and sum: "sum_shares (lp_balances s) = total_supply s"
    and rs: "0 < reserve_x s" "0 < reserve_y s"
    using pos by (auto simp: pool_inv_def)
  have le: "get_lp_balance s (tx_sender env) \<le> total_supply s"
    using balance_le_sum_shares [OF fin, of "tx_sender env"] by (simp add: get_lp_balance_def sum)
  from sum_shares_upd [OF fin, of "tx_sender env" "get_lp_balance s (tx_sender env) - sh"] bal
  have sum': "sum_shares ((lp_balances s)(tx_sender env \<mapsto> get_lp_balance s (tx_sender env) - sh))
          = total_supply s - sh"
    by (simp add: get_lp_balance_def sum)
  show ?thesis
  proof (cases "sh = total_supply s")
    case True
    then have "amount_x = reserve_x s" "amount_y = reserve_y s"
      using pos by (simp_all add: ax ay)
    with True fin sum' show ?thesis
      by (simp add: s' pool_inv_def)
  next
    case False
    with bal le have lt: "sh < total_supply s" by simp
    have "amount_x < reserve_x s" "amount_y < reserve_y s"
      unfolding ax ay using lt rs by (simp_all add: proportional_lt)
    with lt fin sum' show ?thesis
      by (simp add: s' pool_inv_def)
  qed
qed

lemma pool_inv_map_responses:
  assumes step: "\<And>x s r s'. pool_inv s \<Longrightarrow> f x s = Inr (r, s') \<Longrightarrow> pool_inv s'"
  shows "pool_inv s \<Longrightarrow> map_responses f xs s = Inr (rs, s') \<Longrightarrow> pool_inv s'"
proof (induction xs arbitrary: s rs)
  case Nil
  then show ?case by simp
next
  case (Cons x xs)
  show ?case
  proof (cases "f x s")
    case (Inl e)
    with Cons.prems(2) obtain rs' where "map_responses f xs s = Inr (rs', s')"
      by (cases e) (auto simp: and_then_Inr_iff)
    with Cons.IH Cons.prems(1) show ?thesis by blast
  next
    case (Inr p)
    obtain r s1 where p: "p = (r, s1)" by (cases p)
    with Inr Cons.prems(2) obtain rs' where "map_responses f xs s1 = Inr (rs', s')"
      by (auto simp: and_then_Inr_iff)
    moreover have "pool_inv s1" using step Cons.prems(1) Inr p by blast
    ultimately show ?thesis using Cons.IH by blast
  qed
qed

lemma reachable_pool_inv: "reachable s \<Longrightarrow> pool_inv s"
proof (induction rule: reachable.induct)
  case (deployed w)
  show ?case by (rule pool_inv_initial)
next
  case (tokens_changed s w)
  then show ?case by (simp add: pool_inv_tokens)
next
  case (initialized s env tx ty ax ay r s')
  then show ?case using pool_inv_initialize by blast
next
  case (swapped_x s env tx ty dx m rc dl sr s')
  then show ?case using pool_inv_swap_x by blast
next
  case (swapped_y s env tx ty dy m rc dl sr s')
  then show ?case using pool_inv_swap_y by blast
next
  case (added s env tx ty ax ay ms r s')
  then show ?case using pool_inv_add by blast
next
  case (removed s env tx ty sh mx my r s')
  then show ?case using pool_inv_remove by blast
next
  case (bulk_swapped_x s xs env srs s')
  from bulk_swapped_x.hyps(3) have m: "map_responses (bulk_swap_x_for_y_internal env) xs s = Inr (srs, s')"
    by (simp add: bulk_swap_x_for_y_def ok_iffs)
  show ?case
    by (rule pool_inv_map_responses [OF _ bulk_swapped_x.IH m])
       (auto simp: bulk_swap_x_for_y_internal_def intro: pool_inv_swap_x)
next
  case (bulk_swapped_y s ys env srs s')
  from bulk_swapped_y.hyps(3) have m: "map_responses (bulk_swap_y_for_x_internal env) ys s = Inr (srs, s')"
    by (simp add: bulk_swap_y_for_x_def ok_iffs)
  show ?case
    by (rule pool_inv_map_responses [OF _ bulk_swapped_y.IH m])
       (auto simp: bulk_swap_y_for_x_internal_def intro: pool_inv_swap_y)
next
  case (bulk_added s as env rs s')
  from bulk_added.hyps(3) have m: "map_responses (bulk_add_liquidity_internal env) as s = Inr (rs, s')"
    by (simp add: bulk_add_liquidity_def ok_iffs)
  show ?case
    by (rule pool_inv_map_responses [OF _ bulk_added.IH m])
       (auto simp: bulk_add_liquidity_internal_def intro: pool_inv_add)
next
  case (bulk_removed s rms env rs s')
  from bulk_removed.hyps(3) have m: "map_responses (bulk_remove_liquidity_internal env) rms s = Inr (rs, s')"
    by (simp add: bulk_remove_liquidity_def ok_iffs)
  show ?case
    by (rule pool_inv_map_responses [OF _ bulk_removed.IH m])
       (auto simp: bulk_remove_liquidity_internal_def intro: pool_inv_remove)
qed




subsection \<open>The square root of the language\<close>

text \<open>
  \<open>sqrti n\<close> is the floor of the square root of \<open>n\<close>: its square is at most \<open>n\<close>, the
  square of its successor is above \<open>n\<close>, and it is the only such number.
\<close>

lemma sqrti_floor: "sqrti n * sqrti n \<le> n \<and> n < (sqrti n + 1) * (sqrti n + 1)"
proof (induction n rule: sqrti.induct)
  case (1 n)
  show ?case
  proof (cases "n = 0")
    case True
    then show ?thesis by (simp add: sqrti.simps)
  next
    case False
    let ?q = "sqrti (n div 4)"
    from 1 [OF False] have lo: "?q * ?q \<le> n div 4" and hi: "n div 4 < (?q + 1) * (?q + 1)"
      by simp_all
    have lo': "(2 * ?q) * (2 * ?q) \<le> n"
    proof -
      have "(2 * ?q) * (2 * ?q) = 4 * (?q * ?q)" by simp
      also have "\<dots> \<le> 4 * (n div 4)" using lo by simp
      also have "\<dots> \<le> n" by simp
      finally show ?thesis .
    qed
    have hi': "n < (2 * ?q + 2) * (2 * ?q + 2)"
    proof -
      have "n < 4 * (n div 4) + 4" by presburger
      also have "\<dots> \<le> 4 * ((?q + 1) * (?q + 1))" using hi by simp
      also have "\<dots> = (2 * ?q + 2) * (2 * ?q + 2)" by (simp add: algebra_simps)
      finally show ?thesis .
    qed
    show ?thesis
    proof (cases "(2 * ?q + 1) * (2 * ?q + 1) \<le> n")
      case True
      then have "sqrti n = 2 * ?q + 1"
        using False by (subst sqrti.simps) (simp add: Let_def)
      with True hi' show ?thesis by (simp add: algebra_simps)
    next
      case no: False
      then have "sqrti n = 2 * ?q"
        using False by (subst sqrti.simps) (simp add: Let_def)
      with no lo' show ?thesis by simp
    qed
  qed
qed

lemma sqrti_unique:
  assumes "r * r \<le> n" "n < (r + 1) * (r + 1)"
  shows "sqrti n = r"
proof (rule antisym)
  show "sqrti n \<le> r"
  proof (rule ccontr)
    assume "\<not> sqrti n \<le> r"
    then have "r + 1 \<le> sqrti n" by simp
    then have "(r + 1) * (r + 1) \<le> sqrti n * sqrti n"
      using mult_le_mono [of "r + 1" "sqrti n" "r + 1" "sqrti n"] by blast
    with sqrti_floor [of n] assms(2) show False by simp
  qed
  show "r \<le> sqrti n"
  proof (rule ccontr)
    assume "\<not> r \<le> sqrti n"
    then have "sqrti n + 1 \<le> r" by simp
    then have "(sqrti n + 1) * (sqrti n + 1) \<le> r * r"
      using mult_le_mono [of "sqrti n + 1" r "sqrti n + 1" r] by blast
    with sqrti_floor [of n] assms(1) show False by simp
  qed
qed

subsection \<open>Calls on the pool of the test suite\<close>

lemmas eval_defs = and_then_def asserts_def unwrap_def uadd_def usub_def umul_def udiv_def
  uint_max_def unwrap_transfer_def newton_step_def

lemma sqrti_20000000000000000: "sqrti 20000000000000000 = 141421356"
  by (rule sqrti_unique) simp_all

lemma initialize_pool_100_200:
  "initialize_pool (test_env ''deployer'') ''token-x'' ''token-y'' 100000000 200000000
     (initial_state ()) =
   Inr (\<lparr>lr_shares = 141421356, lr_x = 100000000, lr_y = 200000000\<rparr>, test_pool)"
  by (simp add: initialize_pool_def Let_def sqrti_20000000000000000 and_then_def asserts_def
        umul_def uint_max_def unwrap_transfer_def test_env_def initial_state_def test_pool_def)

lemma reachable_test_pool: "reachable test_pool"
  by (rule reachable.initialized [OF reachable.deployed initialize_pool_100_200])

lemma swap_x_test:
  "swap_x_for_y (test_env ''wallet_1'') ''token-x'' ''token-y'' 10000000 18000000 ''wallet_1'' 20
     test_pool =
   Inr (\<lparr>sw_dx = 10000000, sw_dy = 18132217, sw_fee = 30000, sw_recipient = ''wallet_1''\<rparr>,
        test_pool\<lparr>reserve_x := 109970000, reserve_y := 181867783, total_fees_x := 30000\<rparr>)"
  by (simp add: swap_x_for_y_def Let_def eval_defs test_env_def test_pool_def)

lemma swap_y_test:
  "swap_y_for_x (test_env ''wallet_1'') ''token-x'' ''token-y'' 20000000 9000000 ''wallet_1'' 20
     test_pool =
   Inr (\<lparr>sw_dx = 9066108, sw_dy = 20000000, sw_fee = 60000, sw_recipient = ''wallet_1''\<rparr>,
        test_pool\<lparr>reserve_x := 90933892, reserve_y := 219940000, total_fees_y := 60000\<rparr>)"
  by (simp add: swap_y_for_x_def Let_def eval_defs test_env_def test_pool_def)

lemma remove_all_test:
  "remove_liquidity (test_env ''deployer'') ''token-x'' ''token-y'' 141421356 0 0 test_pool =
   Inr (\<lparr>lr_shares = 141421356, lr_x = 100000000, lr_y = 200000000\<rparr>,
        test_pool\<lparr>reserve_x := 0, reserve_y := 0, total_supply := 0,
                  lp_balances := [''deployer'' \<mapsto> 0]\<rparr>)"
  by (simp add: remove_liquidity_def Let_def eval_defs get_lp_balance_def test_env_def test_pool_def)

lemma quote_overflow:
  "quote_x_for_y 10000000000000000000
     (test_pool\<lparr>reserve_x := 100000000000000000000, reserve_y := 100000000000000000000\<rparr>) =
   Inl (Abort ArithmeticOverflow)"
  by (simp add: quote_x_for_y_def Let_def eval_defs test_pool_def)

lemma quote_add_overflow:
  "quote_add_liquidity 100000000000000000000 100000000000000000000 (initial_state ()) =
   Inl (Abort ArithmeticOverflow)"
  by (simp add: quote_add_liquidity_def Let_def initial_state_def eval_defs)

lemma swap_uninit_expired:
  "swap_x_for_y (test_env ''wallet_1'') ''token-x'' ''token-y'' 10000000 0 ''wallet_1'' 9
     (initial_state ()) = Inl ERR_NOT_INITIALIZED"
  by (simp add: swap_x_for_y_def Let_def eval_defs test_env_def initial_state_def)




subsection \<open>The refused square root\<close>

text \<open>
  What the body of lines 119 to 132 would compute. From \<open>n = 4\<close> on, every iterate lies between 2 and \<open>n/2\<close>: no division by zero
  and no overflow in a refinement. Only the last multiplication can overflow.
\<close>

lemma newton_bounds_step:
  fixes n x :: nat
  assumes "2 \<le> x" "x \<le> n div 2"
  shows "2 \<le> (x + n div x) div 2" "(x + n div x) div 2 \<le> n div 2" "x + n div x \<le> n"
proof -
  have "2 * x \<le> n" using assms(2) by simp
  then have lo: "2 \<le> n div x"
    using assms(1) by (simp add: less_eq_div_iff_mult_less_eq)
  have hi: "n div x \<le> n div 2"
    using assms(1) by (intro div_le_mono2) simp_all
  show "2 \<le> (x + n div x) div 2" using lo assms(1) by simp
  show "(x + n div x) div 2 \<le> n div 2" using hi assms(2) by simp
  show "x + n div x \<le> n" using hi assms(2) by simp
qed

lemma newton_x_bounds: "4 \<le> n \<Longrightarrow> 2 \<le> newton_x n k \<and> newton_x n k \<le> n div 2"
proof (induction k)
  case 0
  then show ?case by simp
next
  case (Suc k)
  then show ?case using newton_bounds_step [of "newton_x n k" n] by simp
qed

lemma newton_step_newton_x:
  assumes "4 \<le> n" "n \<le> uint_max"
  shows "newton_step n (newton_x n k) = Inr (newton_x n (Suc k))"
proof -
  from newton_x_bounds [OF assms(1), of k]
  have b: "2 \<le> newton_x n k" "newton_x n k \<le> n div 2" by simp_all
  from newton_bounds_step(3) [OF b] assms(2) have "newton_x n k + n div newton_x n k \<le> uint_max"
    by simp
  with b(1) show ?thesis
    by (simp add: newton_step_def and_then_def udiv_def uadd_def)
qed

lemma sqrti_define_eq:
  assumes "n \<le> uint_max"
  shows "sqrti_define n =
    (if 3 < n \<and> uint_max < newton_x n 7 * newton_x n 7 then Inl (Abort ArithmeticOverflow)
     else Inr (isqrt_spec n))"
proof (cases "n \<le> 3")
  case True
  then show ?thesis by (simp add: sqrti_define_def isqrt_spec_def)
next
  case False
  then have n4: "4 \<le> n" by simp
  have x0: "udiv n 2 = Inr (newton_x n 0)"
    by (simp add: udiv_def)
  note st = newton_step_newton_x [OF n4 assms]
  have seven: "Suc (Suc (Suc (Suc (Suc (Suc (Suc 0)))))) = 7"
    by simp
  have x7: "2 \<le> newton_x n 7"
    using newton_x_bounds [OF n4, of 7] by simp
  have "sqrti_define n =
      and_then (umul (newton_x n 7) (newton_x n 7))
        (\<lambda>sq. if sq \<le> n then Inr (newton_x n 7) else usub (newton_x n 7) 1)"
    using False unfolding sqrti_define_def
    by (simp add: x0 st and_then_def seven del: newton_x.simps)
  also have "\<dots> =
    (if uint_max < newton_x n 7 * newton_x n 7 then Inl (Abort ArithmeticOverflow)
     else Inr (isqrt_spec n))"
    using False x7 by (simp add: and_then_def umul_def usub_def isqrt_spec_def)
  finally show ?thesis using False by simp
qed

subsection \<open>The quote functions\<close>

lemma and_then_Inl_iff:
  "and_then m f = Inl e \<longleftrightarrow> m = Inl e \<or> (\<exists>v. m = Inr v \<and> f v = Inl e)"
  by (cases m) (simp_all add: and_then_def)

lemma arith_no_Err [simp]:
  "uadd a b \<noteq> Inl (Err u)" "usub a b \<noteq> Inl (Err u)"
  "umul a b \<noteq> Inl (Err u)" "udiv a b \<noteq> Inl (Err u)"
  by (simp_all add: uadd_def usub_def umul_def udiv_def)

lemma quote_add_liquidity_no_Err: "quote_add_liquidity ax ay s \<noteq> Inl (Err u)"
  by (simp add: quote_add_liquidity_def Let_def and_then_Inl_iff)

lemma asserts_Inl_iff: "asserts b e' = Inl e \<longleftrightarrow> \<not> b \<and> e = e'"
  by (auto simp: asserts_def)

lemma output_lt_reserve:
  fixes r_in r_out net :: nat
  assumes "0 < r_in" "0 < r_out"
  shows "r_out * net div (r_in + net) < r_out"
proof -
  have "r_out * net < r_out * (r_in + net)" using assms by simp
  then show ?thesis using assms(1) by (simp add: div_less_iff_less_mult mult.commute)
qed

lemma quote_x_for_y_eq:
  assumes "0 < dx" "0 < reserve_x s" "0 < reserve_y s"
  shows "quote_x_for_y dx s =
    (if dx * 30 \<le> uint_max \<and>
        reserve_y s * (dx - dx * 30 div 10000) \<le> uint_max \<and>
        reserve_x s + (dx - dx * 30 div 10000) \<le> uint_max
     then Inr \<lparr>q_dy = reserve_y s * (dx - dx * 30 div 10000)
                        div (reserve_x s + (dx - dx * 30 div 10000)),
               q_fee = dx * 30 div 10000\<rparr>
     else Inl (Abort ArithmeticOverflow))"
proof -
  have "dx * 30 div 10000 \<le> dx" by simp
  with assms output_lt_reserve [OF assms(2,3), of "dx - dx * 30 div 10000"] show ?thesis
    unfolding quote_x_for_y_def Let_def
    by (simp add: and_then_def asserts_def umul_def udiv_def usub_def uadd_def)
qed

lemma quote_x_for_y_no_104: "quote_x_for_y dx s \<noteq> Inl ERR_INSUFFICIENT_LIQUIDITY"
proof (cases "0 < dx \<and> 0 < reserve_x s \<and> 0 < reserve_y s")
  case True
  then show ?thesis by (simp add: quote_x_for_y_eq)
next
  case False
  then show ?thesis
    by (auto simp: quote_x_for_y_def Let_def and_then_def asserts_def)
qed



lemma quote_add_liquidity_first:
  assumes "total_supply s = 0"
  shows "quote_add_liquidity ax ay s =
    (if ax * ay \<le> uint_max
     then Inr \<lparr>lq_shares = sqrti (ax * ay), lq_optimal_x = ax, lq_optimal_y = ay\<rparr>
     else Inl (Abort ArithmeticOverflow))"
  using assms unfolding quote_add_liquidity_def Let_def
  by (simp add: and_then_def umul_def)

lemma quote_add_liquidity_later:
  assumes "0 < total_supply s" "0 < reserve_x s" "0 < reserve_y s"
  shows "quote_add_liquidity ax ay s =
    (if ax * total_supply s \<le> uint_max \<and> ay * total_supply s \<le> uint_max
     then Inr \<lparr>lq_shares = min (ax * total_supply s div reserve_x s)
                               (ay * total_supply s div reserve_y s),
               lq_optimal_x = min (ax * total_supply s div reserve_x s)
                                  (ay * total_supply s div reserve_y s)
                              * reserve_x s div total_supply s,
               lq_optimal_y = min (ax * total_supply s div reserve_x s)
                                  (ay * total_supply s div reserve_y s)
                              * reserve_y s div total_supply s\<rparr>
     else Inl (Abort ArithmeticOverflow))"
proof -
  let ?sx = "ax * total_supply s div reserve_x s"
  let ?sy = "ay * total_supply s div reserve_y s"
  have m: "(if a < b then a else b) = min a b" for a b :: nat
    by (simp add: min_def)
  have "min ?sx ?sy * reserve_x s \<le> ?sx * reserve_x s"
    by (intro mult_le_mono1) simp
  also have "\<dots> \<le> ax * total_supply s"
    by simp
  finally have bx: "min ?sx ?sy * reserve_x s \<le> ax * total_supply s" .
  have "min ?sx ?sy * reserve_y s \<le> ?sy * reserve_y s"
    by (intro mult_le_mono1) simp
  also have "\<dots> \<le> ay * total_supply s"
    by simp
  finally have by': "min ?sx ?sy * reserve_y s \<le> ay * total_supply s" .
  show ?thesis
    using assms bx by' unfolding quote_add_liquidity_def Let_def m
    by (auto simp: and_then_def umul_def udiv_def)
qed


text \<open>At 9976 the body of lines 119 to 132 would answer 100.\<close>

lemma sqrti_define_9976: "sqrti_define 9976 = Inr 100"
  by (simp add: sqrti_define_def eval_defs)

subsection \<open>What a bulk call can answer\<close>

text \<open>
  \<open>map\<close> never turns an item's \<open>(err u)\<close> into the answer of the bulk call: the only
  error code a bulk function returns is 100, for the empty list. The state after the
  first items of a list is the state a bulk call on those items alone ends in.
\<close>

lemma map_responses_no_Err: "map_responses f xs s \<noteq> Inl (Err u)"
proof (induction xs arbitrary: s)
  case Nil
  show ?case by simp
next
  case (Cons x xs)
  show ?case
  proof (cases "f x s")
    case (Inl e)
    then show ?thesis
      using Cons.IH [of s] by (cases e) (auto simp: and_then_Inl_iff)
  next
    case (Inr p)
    then show ?thesis
      using Cons.IH [of "snd p"] by (cases p) (auto simp: and_then_Inl_iff)
  qed
qed

lemma bulk_swap_x_for_y_Err_iff:
  "bulk_swap_x_for_y env swaps s = Inl (Err u) \<longleftrightarrow> swaps = [] \<and> u = 100"
  by (auto simp: bulk_swap_x_for_y_def and_then_Inl_iff asserts_Inl_iff map_responses_no_Err)

lemma bulk_swap_y_for_x_Err_iff:
  "bulk_swap_y_for_x env swaps s = Inl (Err u) \<longleftrightarrow> swaps = [] \<and> u = 100"
  by (auto simp: bulk_swap_y_for_x_def and_then_Inl_iff asserts_Inl_iff map_responses_no_Err)

lemma bulk_add_liquidity_Err_iff:
  "bulk_add_liquidity env ads s = Inl (Err u) \<longleftrightarrow> ads = [] \<and> u = 100"
  by (auto simp: bulk_add_liquidity_def and_then_Inl_iff asserts_Inl_iff map_responses_no_Err)

lemma bulk_remove_liquidity_Err_iff:
  "bulk_remove_liquidity env rms s = Inl (Err u) \<longleftrightarrow> rms = [] \<and> u = 100"
  by (auto simp: bulk_remove_liquidity_def and_then_Inl_iff asserts_Inl_iff map_responses_no_Err)

lemma map_responses_append:
  assumes "map_responses f (xs @ ys) s = Inr (rs, s')"
  shows "\<exists>rs1 s1 rs2. map_responses f xs s = Inr (rs1, s1) \<and>
           map_responses f ys s1 = Inr (rs2, s') \<and> rs = rs1 @ rs2"
  using assms
proof (induction xs arbitrary: s rs)
  case Nil
  then show ?case by simp
next
  case (Cons x xs)
  show ?case
  proof (cases "f x s")
    case (Inl e)
    with Cons.prems obtain u rs' where e: "e = Err u"
      and m: "map_responses f (xs @ ys) s = Inr (rs', s')" and rs: "rs = Error u # rs'"
      by (cases e) (auto simp: and_then_Inr_iff)
    from Cons.IH [OF m] Inl e rs show ?thesis
      by (auto simp: and_then_def)
  next
    case (Inr p)
    obtain r s1 where p: "p = (r, s1)" by (cases p)
    with Inr Cons.prems obtain rs' where
      m: "map_responses f (xs @ ys) s1 = Inr (rs', s')" and rs: "rs = Ok r # rs'"
      by (auto simp: and_then_Inr_iff)
    from Cons.IH [OF m] Inr p rs show ?thesis
      by (auto simp: and_then_def)
  qed
qed

section \<open>The claims\<close>

subsection \<open>C1: bulk operations\<close>

text \<open>
  C1 says that when an item of a bulk call fails, the whole call is discarded: the
  reserves, the total supply and every share balance are as before the call, and the
  result is that item's failure code. The test suite expects the same
  (\<open>should handle mixed successful and failed swaps\<close> expects \<open>(err u103)\<close>).
  The code does something else: the bulk functions wrap the list of the items' responses
  in \<open>ok\<close>. On the pool of the test suite, with a first swap that succeeds and a
  second one whose minimum output is too high, \<open>bulk-swap-x-for-y\<close> answers
  \<open>(ok (list (ok ...) (err u103)))\<close> and the first swap has moved the reserves.
\<close>

theorem bulk_swap_x_for_y_partial_effects:
  "bulk_swap_x_for_y (test_env ''wallet_1'')
     [\<lparr>sxd_token_x = ''token-x'', sxd_token_y = ''token-y'', sxd_dx = 10000000,
       sxd_min_dy = 18000000, sxd_recipient = ''wallet_1'', sxd_deadline = 20\<rparr>,
      \<lparr>sxd_token_x = ''token-x'', sxd_token_y = ''token-y'', sxd_dx = 10000000,
       sxd_min_dy = 20000000, sxd_recipient = ''wallet_2'', sxd_deadline = 20\<rparr>]
     test_pool =
   Inr ([Ok \<lparr>sw_dx = 10000000, sw_dy = 18132217, sw_fee = 30000, sw_recipient = ''wallet_1''\<rparr>,
         Error 103],
        test_pool\<lparr>reserve_x := 109970000, reserve_y := 181867783, total_fees_x := 30000\<rparr>)"
  by (simp add: bulk_swap_x_for_y_def bulk_swap_x_for_y_internal_def swap_x_for_y_def Let_def
        eval_defs test_env_def test_pool_def)

subsection \<open>C2: the reserves stay positive\<close>

text \<open>
  C2, amended. In every reachable state the two reserves are positive as long as shares
  are outstanding (\<open>total-supply > 0\<close>); they are zero exactly when \<open>total-supply\<close> is
  zero. Swaps and \<open>add-liquidity\<close> do not lower \<open>total-supply\<close>, so they never bring a
  reserve to zero; \<open>remove-liquidity\<close> does when it burns all outstanding shares.
\<close>

theorem reserves_positive_while_shares_outstanding:
  assumes "reachable s"
  shows "(0 < total_supply s \<longrightarrow> 0 < reserve_x s \<and> 0 < reserve_y s) \<and>
         (total_supply s = 0 \<longrightarrow> reserve_x s = 0 \<and> reserve_y s = 0)"
  using reachable_pool_inv [OF assms] by (auto simp: pool_inv_def)

text \<open>The theorem on the pool of the test suite and on the pool at deployment.\<close>

theorem reserves_positive_while_shares_outstanding_witness:
  "reachable test_pool \<and> 0 < total_supply test_pool \<and>
   0 < reserve_x test_pool \<and> 0 < reserve_y test_pool \<and>
   reachable (initial_state ()) \<and> total_supply (initial_state ()) = 0 \<and>
   reserve_x (initial_state ()) = 0 \<and> reserve_y (initial_state ()) = 0"
  using reserves_positive_while_shares_outstanding [OF reachable_test_pool]
    reserves_positive_while_shares_outstanding [OF reachable.deployed [of "()"]]
    reachable_test_pool reachable.deployed [of "()"]
  by (simp add: test_pool_def initial_state_def)

text \<open>
  C2 as stated fails: the deployer initializes the pool and then removes all the shares;
  the call succeeds and leaves both reserves at zero.
\<close>

theorem remove_all_drains_reserves:
  "initialize_pool (test_env ''deployer'') ''token-x'' ''token-y'' 100000000 200000000
     (initial_state ()) =
   Inr (\<lparr>lr_shares = 141421356, lr_x = 100000000, lr_y = 200000000\<rparr>, test_pool) \<and>
   remove_liquidity (test_env ''deployer'') ''token-x'' ''token-y'' 141421356 0 0 test_pool =
   Inr (\<lparr>lr_shares = 141421356, lr_x = 100000000, lr_y = 200000000\<rparr>,
        test_pool\<lparr>reserve_x := 0, reserve_y := 0, total_supply := 0,
                  lp_balances := [''deployer'' \<mapsto> 0]\<rparr>)"
  by (simp add: initialize_pool_100_200 remove_all_test)

subsection \<open>C3: the amounts of a swap\<close>

text \<open>
  C3, amended. With reserves \<open>(100000000, 200000000)\<close>, a successful \<open>swap-x-for-y\<close>
  of \<open>dx = 10000000\<close> returns \<open>dy = 18132217\<close> with \<open>fee = 30000\<close>, and a successful
  \<open>swap-y-for-x\<close> of \<open>dy = 20000000\<close> against the same reserves returns
  \<open>dx = 9066108\<close> with \<open>fee = 60000\<close>: the output is computed from the input less
  the fee.
\<close>

theorem swap_amounts_100_200:
  assumes "reserve_x s = 100000000" "reserve_y s = 200000000"
  shows "(swap_x_for_y env tx ty 10000000 m rc dl s = Inr (sr, s') \<longrightarrow>
            sw_dy sr = 18132217 \<and> sw_fee sr = 30000) \<and>
         (swap_y_for_x env tx ty 20000000 m rc dl s = Inr (sr, s') \<longrightarrow>
            sw_dx sr = 9066108 \<and> sw_fee sr = 60000)"
proof (intro conjI impI)
  assume "swap_x_for_y env tx ty 10000000 m rc dl s = Inr (sr, s')"
  from swap_x_for_y_okD [OF this] assms
  show "sw_dy sr = 18132217" "sw_fee sr = 30000" by auto
next
  assume "swap_y_for_x env tx ty 20000000 m rc dl s = Inr (sr, s')"
  from swap_y_for_x_okD [OF this] assms
  show "sw_dx sr = 9066108" "sw_fee sr = 60000" by auto
qed

text \<open>Both swaps on the pool of the test suite.\<close>

theorem swap_amounts_100_200_witness:
  "reserve_x test_pool = 100000000 \<and> reserve_y test_pool = 200000000 \<and>
   swap_x_for_y (test_env ''wallet_1'') ''token-x'' ''token-y'' 10000000 18000000 ''wallet_1'' 20
     test_pool =
   Inr (\<lparr>sw_dx = 10000000, sw_dy = 18132217, sw_fee = 30000, sw_recipient = ''wallet_1''\<rparr>,
        test_pool\<lparr>reserve_x := 109970000, reserve_y := 181867783, total_fees_x := 30000\<rparr>) \<and>
   sw_dy \<lparr>sw_dx = 10000000, sw_dy = 18132217, sw_fee = 30000, sw_recipient = ''wallet_1''\<rparr>
     = 18132217 \<and>
   swap_y_for_x (test_env ''wallet_1'') ''token-x'' ''token-y'' 20000000 9000000 ''wallet_1'' 20
     test_pool =
   Inr (\<lparr>sw_dx = 9066108, sw_dy = 20000000, sw_fee = 60000, sw_recipient = ''wallet_1''\<rparr>,
        test_pool\<lparr>reserve_x := 90933892, reserve_y := 219940000, total_fees_y := 60000\<rparr>) \<and>
   sw_dx \<lparr>sw_dx = 9066108, sw_dy = 20000000, sw_fee = 60000, sw_recipient = ''wallet_1''\<rparr>
     = 9066108"
  using
    swap_amounts_100_200 [of test_pool "test_env ''wallet_1''" "''token-x''" "''token-y''"
      18000000 "''wallet_1''" 20
      "\<lparr>sw_dx = 10000000, sw_dy = 18132217, sw_fee = 30000, sw_recipient = ''wallet_1''\<rparr>"
      "test_pool\<lparr>reserve_x := 109970000, reserve_y := 181867783, total_fees_x := 30000\<rparr>"]
    swap_amounts_100_200 [of test_pool "test_env ''wallet_1''" "''token-x''" "''token-y''"
      9000000 "''wallet_1''" 20
      "\<lparr>sw_dx = 9066108, sw_dy = 20000000, sw_fee = 60000, sw_recipient = ''wallet_1''\<rparr>"
      "test_pool\<lparr>reserve_x := 90933892, reserve_y := 219940000, total_fees_y := 60000\<rparr>"]
    swap_x_test swap_y_test
  by (simp add: test_pool_def)

text \<open>
  C3 as stated fails: on the pool of the test suite the two swaps return
  \<open>dy = 18132217\<close> and \<open>dx = 9066108\<close>, not 18181818 and 9090909.
\<close>

theorem swap_amounts_counterexample:
  "swap_x_for_y (test_env ''wallet_1'') ''token-x'' ''token-y'' 10000000 18000000 ''wallet_1'' 20
     test_pool =
   Inr (\<lparr>sw_dx = 10000000, sw_dy = 18132217, sw_fee = 30000, sw_recipient = ''wallet_1''\<rparr>,
        test_pool\<lparr>reserve_x := 109970000, reserve_y := 181867783, total_fees_x := 30000\<rparr>) \<and>
   swap_y_for_x (test_env ''wallet_1'') ''token-x'' ''token-y'' 20000000 9000000 ''wallet_1'' 20
     test_pool =
   Inr (\<lparr>sw_dx = 9066108, sw_dy = 20000000, sw_fee = 60000, sw_recipient = ''wallet_1''\<rparr>,
        test_pool\<lparr>reserve_x := 90933892, reserve_y := 219940000, total_fees_y := 60000\<rparr>)"
  by (simp add: swap_x_test swap_y_test)

subsection \<open>C4: the shares of the first deposit\<close>

text \<open>
  C4, amended. Calling \<open>initialize-pool\<close> on a pool with zero reserves with amounts
  \<open>(100000000, 200000000)\<close>, with tokens that accept the two transfers, succeeds and
  issues exactly 141421356 shares to the caller, the floor of the square root of the
  product 20000000000000000 of the two amounts, and sets \<open>total-supply\<close> to 141421356.
\<close>

theorem initialize_pool_100_200_shares:
  assumes "reserve_x s = 0" "reserve_y s = 0"
    and "ft_transfer env tx 100000000 (tx_sender env) (contract_principal env) (tokens s) = Inr w1"
    and "ft_transfer env ty 200000000 (tx_sender env) (contract_principal env) w1 = Inr w2"
  shows "initialize_pool env tx ty 100000000 200000000 s =
    Inr (\<lparr>lr_shares = 141421356, lr_x = 100000000, lr_y = 200000000\<rparr>,
         s\<lparr>fee_recipient := Some (tx_sender env), reserve_x := 100000000,
           reserve_y := 200000000, total_supply := 141421356,
           lp_balances := (lp_balances s)(tx_sender env \<mapsto> 141421356),
           tokens := w2\<rparr>)"
  using assms
  by (simp add: initialize_pool_def Let_def sqrti_20000000000000000 and_then_def asserts_def
        umul_def uint_max_def unwrap_transfer_def)

text \<open>The theorem for the deployer of the test suite on the pool at deployment.\<close>

theorem initialize_pool_100_200_shares_witness:
  "reserve_x (initial_state ()) = 0 \<and> reserve_y (initial_state ()) = 0 \<and>
   ft_transfer (test_env ''deployer'') ''token-x'' 100000000 ''deployer'' ''pool-v5'' () = Inr () \<and>
   ft_transfer (test_env ''deployer'') ''token-y'' 200000000 ''deployer'' ''pool-v5'' () = Inr () \<and>
   initialize_pool (test_env ''deployer'') ''token-x'' ''token-y'' 100000000 200000000
     (initial_state ()) =
   Inr (\<lparr>lr_shares = 141421356, lr_x = 100000000, lr_y = 200000000\<rparr>,
        \<lparr>fee_recipient = Some ''deployer'', reserve_x = 100000000, reserve_y = 200000000,
         total_supply = 141421356, total_fees_x = 0, total_fees_y = 0,
         lp_balances = [''deployer'' \<mapsto> 141421356], tokens = ()\<rparr>)"
  using initialize_pool_100_200_shares [of "initial_state ()" "test_env ''deployer''"
      "''token-x''" "()" "''token-y''" "()"]
  by (simp add: test_env_def initial_state_def)

text \<open>
  C4 as stated fails: the call of the test suite issues 141421356 shares, not 14142.
\<close>

theorem initialize_shares_counterexample:
  "initialize_pool (test_env ''deployer'') ''token-x'' ''token-y'' 100000000 200000000
     (initial_state ()) =
   Inr (\<lparr>lr_shares = 141421356, lr_x = 100000000, lr_y = 200000000\<rparr>, test_pool) \<and>
   total_supply test_pool = 141421356 \<and>
   lp_balances test_pool ''deployer'' = Some 141421356"
  by (simp add: initialize_pool_100_200) (simp add: test_pool_def)

subsection \<open>C5: the integer square root\<close>




subsection \<open>C6: the order of the checks of a swap\<close>

text \<open>
  C6, amended. \<open>swap-x-for-y\<close> checks its preconditions in this order and returns the
  error of the first one violated: the pool is initialized, that is the fee recipient is
  set (201); the deadline has not passed (102); \<open>dx > 0\<close> (100); both reserves are
  positive (101). A call with an expired deadline on an uninitialized pool fails with
  201, not with 102.
\<close>

theorem swap_x_for_y_check_order:
  "(fee_recipient s = None \<longrightarrow>
      swap_x_for_y env tx ty dx m rc dl s = Inl ERR_NOT_INITIALIZED) \<and>
   (fee_recipient s \<noteq> None \<and> dl < stacks_block_height env \<longrightarrow>
      swap_x_for_y env tx ty dx m rc dl s = Inl ERR_DEADLINE_EXPIRED) \<and>
   (fee_recipient s \<noteq> None \<and> stacks_block_height env \<le> dl \<and> dx = 0 \<longrightarrow>
      swap_x_for_y env tx ty dx m rc dl s = Inl ERR_ZERO_INPUT) \<and>
   (fee_recipient s \<noteq> None \<and> stacks_block_height env \<le> dl \<and> 0 < dx \<and>
    (reserve_x s = 0 \<or> reserve_y s = 0) \<longrightarrow>
      swap_x_for_y env tx ty dx m rc dl s = Inl ERR_ZERO_RESERVES)"
  by (auto simp: swap_x_for_y_def Let_def and_then_def unwrap_def asserts_def)

text \<open>One call for each of the four checks.\<close>

theorem swap_x_for_y_check_order_witness:
  "fee_recipient (initial_state ()) = None \<and>
   swap_x_for_y (test_env ''wallet_1'') ''token-x'' ''token-y'' 10000000 0 ''wallet_1'' 9
     (initial_state ()) = Inl ERR_NOT_INITIALIZED \<and>
   fee_recipient test_pool \<noteq> None \<and> 9 < stacks_block_height (test_env ''wallet_1'') \<and>
   swap_x_for_y (test_env ''wallet_1'') ''token-x'' ''token-y'' 0 0 ''wallet_1'' 9
     test_pool = Inl ERR_DEADLINE_EXPIRED \<and>
   stacks_block_height (test_env ''wallet_1'') \<le> 20 \<and>
   swap_x_for_y (test_env ''wallet_1'') ''token-x'' ''token-y'' 0 0 ''wallet_1'' 20
     test_pool = Inl ERR_ZERO_INPUT \<and>
   reserve_x (test_pool\<lparr>reserve_x := 0, reserve_y := 0, total_supply := 0\<rparr>) = 0 \<and>
   swap_x_for_y (test_env ''wallet_1'') ''token-x'' ''token-y'' 10000000 0 ''wallet_1'' 20
     (test_pool\<lparr>reserve_x := 0, reserve_y := 0, total_supply := 0\<rparr>) = Inl ERR_ZERO_RESERVES"
  using
    swap_x_for_y_check_order [of "initial_state ()" "test_env ''wallet_1''" "''token-x''"
      "''token-y''" 10000000 0 "''wallet_1''" 9]
    swap_x_for_y_check_order [of test_pool "test_env ''wallet_1''" "''token-x''"
      "''token-y''" 0 0 "''wallet_1''" 9]
    swap_x_for_y_check_order [of test_pool "test_env ''wallet_1''" "''token-x''"
      "''token-y''" 0 0 "''wallet_1''" 20]
    swap_x_for_y_check_order [of "test_pool\<lparr>reserve_x := 0, reserve_y := 0, total_supply := 0\<rparr>"
      "test_env ''wallet_1''" "''token-x''" "''token-y''" 10000000 0 "''wallet_1''" 20]
  by (simp add: test_env_def test_pool_def initial_state_def)

text \<open>
  C6 as stated fails: on the pool at deployment, at block height 10 with deadline 9, the
  swap answers 201.
\<close>

theorem swap_uninitialized_expired_counterexample:
  "fee_recipient (initial_state ()) = None \<and>
   \<not> stacks_block_height (test_env ''wallet_1'') \<le> 9 \<and>
   swap_x_for_y (test_env ''wallet_1'') ''token-x'' ''token-y'' 10000000 0 ''wallet_1'' 9
     (initial_state ()) = Inl ERR_NOT_INITIALIZED"
  by (simp add: swap_uninit_expired) (simp add: test_env_def initial_state_def)

subsection \<open>C7: the product of the reserves\<close>

text \<open>
  C7. After a successful swap in either direction, the product of the two reserves is
  at least what it was before the swap. (A swap only succeeds from a state with both
  reserves positive.)
\<close>

theorem swap_product_nondecreasing:
  "(swap_x_for_y env tx ty dx m rc dl s = Inr (sr, s') \<longrightarrow>
      reserve_x s * reserve_y s \<le> reserve_x s' * reserve_y s') \<and>
   (swap_y_for_x env tx ty dy m rc dl s = Inr (sr, s') \<longrightarrow>
      reserve_x s * reserve_y s \<le> reserve_x s' * reserve_y s')"
proof (intro conjI impI)
  assume "swap_x_for_y env tx ty dx m rc dl s = Inr (sr, s')"
  from swap_x_for_y_okD [OF this] obtain fee net dy w where
    "dy = reserve_y s * net div (reserve_x s + net)"
    "s' = s\<lparr>reserve_x := reserve_x s + net, reserve_y := reserve_y s - dy,
            total_fees_x := total_fees_x s + fee, tokens := w\<rparr>"
    by blast
  then show "reserve_x s * reserve_y s \<le> reserve_x s' * reserve_y s'"
    using constant_product_mono [of "reserve_x s" "reserve_y s" net] by simp
next
  assume "swap_y_for_x env tx ty dy m rc dl s = Inr (sr, s')"
  from swap_y_for_x_okD [OF this] obtain fee net dx w where
    "dx = reserve_x s * net div (reserve_y s + net)"
    "s' = s\<lparr>reserve_x := reserve_x s - dx, reserve_y := reserve_y s + net,
            total_fees_y := total_fees_y s + fee, tokens := w\<rparr>"
    by blast
  then show "reserve_x s * reserve_y s \<le> reserve_x s' * reserve_y s'"
    using constant_product_mono [of "reserve_y s" "reserve_x s" net] by (simp add: mult.commute)
qed

text \<open>Both swaps on the pool of the test suite.\<close>

theorem swap_product_nondecreasing_witness:
  "swap_x_for_y (test_env ''wallet_1'') ''token-x'' ''token-y'' 10000000 18000000 ''wallet_1'' 20
     test_pool =
   Inr (\<lparr>sw_dx = 10000000, sw_dy = 18132217, sw_fee = 30000, sw_recipient = ''wallet_1''\<rparr>,
        test_pool\<lparr>reserve_x := 109970000, reserve_y := 181867783, total_fees_x := 30000\<rparr>) \<and>
   (100000000 :: nat) * 200000000 \<le> 109970000 * 181867783 \<and>
   swap_y_for_x (test_env ''wallet_1'') ''token-x'' ''token-y'' 20000000 9000000 ''wallet_1'' 20
     test_pool =
   Inr (\<lparr>sw_dx = 9066108, sw_dy = 20000000, sw_fee = 60000, sw_recipient = ''wallet_1''\<rparr>,
        test_pool\<lparr>reserve_x := 90933892, reserve_y := 219940000, total_fees_y := 60000\<rparr>) \<and>
   (100000000 :: nat) * 200000000 \<le> 90933892 * 219940000"
  using
    swap_product_nondecreasing [of "test_env ''wallet_1''" "''token-x''" "''token-y''" 10000000
      18000000 "''wallet_1''" 20 test_pool
      "\<lparr>sw_dx = 10000000, sw_dy = 18132217, sw_fee = 30000, sw_recipient = ''wallet_1''\<rparr>"
      "test_pool\<lparr>reserve_x := 109970000, reserve_y := 181867783, total_fees_x := 30000\<rparr>"]
    swap_product_nondecreasing [of "test_env ''wallet_1''" "''token-x''" "''token-y''" 0
      9000000 "''wallet_1''" 20 test_pool
      "\<lparr>sw_dx = 9066108, sw_dy = 20000000, sw_fee = 60000, sw_recipient = ''wallet_1''\<rparr>"
      "test_pool\<lparr>reserve_x := 90933892, reserve_y := 219940000, total_fees_y := 60000\<rparr>"
      20000000]
    swap_x_test swap_y_test
  by (simp add: test_pool_def)

subsection \<open>C8: the share balances add up to the total supply\<close>

text \<open>
  C8. In the state at deployment and in every state reached from it by successful calls
  of \<open>initialize-pool\<close>, \<open>add-liquidity\<close>, \<open>remove-liquidity\<close>, the two swaps and the
  four bulk functions, the share balances of all accounts add up to \<open>total-supply\<close>.
  The state between two items of a bulk call is such a state too: each item is a call of
  the single operation (\<open>pool_inv_map_responses\<close>, \<open>map_responses_append\<close>).
\<close>

theorem share_balances_sum_to_total_supply:
  assumes "reachable s"
  shows "finite (dom (lp_balances s)) \<and> sum_shares (lp_balances s) = total_supply s"
  using reachable_pool_inv [OF assms] by (simp add: pool_inv_def)

text \<open>The theorem on the pool of the test suite.\<close>

theorem share_balances_sum_to_total_supply_witness:
  "reachable test_pool \<and> finite (dom (lp_balances test_pool)) \<and>
   sum_shares (lp_balances test_pool) = total_supply test_pool \<and>
   total_supply test_pool = 141421356"
  using share_balances_sum_to_total_supply [OF reachable_test_pool] reachable_test_pool
  by (simp add: test_pool_def)

subsection \<open>C9: the forward quote\<close>

text \<open>
  C9, amended. For every \<open>dx > 0\<close> and reserves \<open>reserveX > 0\<close>, \<open>reserveY > 0\<close>:
  when \<open>dx * 30\<close>, \<open>reserveY * (dx - fee)\<close> and \<open>reserveX + (dx - fee)\<close> fit in 128
  bits, \<open>quote-x-for-y\<close> succeeds with \<open>fee = floor(dx * 30 / 10000)\<close> and
  \<open>out = floor(reserveY * (dx - fee) / (reserveX + (dx - fee)))\<close>; otherwise the call
  aborts with an arithmetic overflow. In both cases \<open>out < reserveY\<close> and \<open>fee <= dx\<close>,
  and the insufficient-liquidity branch (104) is never taken.
\<close>

theorem quote_x_for_y_outcome:
  assumes "0 < dx" "0 < reserve_x s" "0 < reserve_y s"
  shows "quote_x_for_y dx s =
      (if dx * 30 \<le> uint_max \<and>
          reserve_y s * (dx - dx * 30 div 10000) \<le> uint_max \<and>
          reserve_x s + (dx - dx * 30 div 10000) \<le> uint_max
       then Inr \<lparr>q_dy = reserve_y s * (dx - dx * 30 div 10000)
                          div (reserve_x s + (dx - dx * 30 div 10000)),
                 q_fee = dx * 30 div 10000\<rparr>
       else Inl (Abort ArithmeticOverflow)) \<and>
    reserve_y s * (dx - dx * 30 div 10000) div (reserve_x s + (dx - dx * 30 div 10000))
      < reserve_y s \<and>
    dx * 30 div 10000 \<le> dx \<and>
    quote_x_for_y dx s \<noteq> Inl ERR_INSUFFICIENT_LIQUIDITY"
proof (intro conjI)
  show "quote_x_for_y dx s =
      (if dx * 30 \<le> uint_max \<and>
          reserve_y s * (dx - dx * 30 div 10000) \<le> uint_max \<and>
          reserve_x s + (dx - dx * 30 div 10000) \<le> uint_max
       then Inr \<lparr>q_dy = reserve_y s * (dx - dx * 30 div 10000)
                          div (reserve_x s + (dx - dx * 30 div 10000)),
                 q_fee = dx * 30 div 10000\<rparr>
       else Inl (Abort ArithmeticOverflow))"
    by (rule quote_x_for_y_eq [OF assms])
  show "reserve_y s * (dx - dx * 30 div 10000) div (reserve_x s + (dx - dx * 30 div 10000))
      < reserve_y s"
    by (rule output_lt_reserve [OF assms(2,3)])
  show "dx * 30 div 10000 \<le> dx"
    by simp
  show "quote_x_for_y dx s \<noteq> Inl ERR_INSUFFICIENT_LIQUIDITY"
    by (rule quote_x_for_y_no_104)
qed

text \<open>The theorem for \<open>dx = 10000000\<close> on the pool of the test suite.\<close>

theorem quote_x_for_y_outcome_witness:
  "0 < (10000000 :: nat) \<and> 0 < reserve_x test_pool \<and> 0 < reserve_y test_pool \<and>
   quote_x_for_y 10000000 test_pool = Inr \<lparr>q_dy = 18132217, q_fee = 30000\<rparr> \<and>
   (18132217 :: nat) < reserve_y test_pool \<and> (30000 :: nat) \<le> 10000000"
  using quote_x_for_y_outcome [of 10000000 test_pool]
  by (simp add: test_pool_def uint_max_def)

text \<open>
  C9 as stated fails: with both reserves at \<open>10^20\<close> and \<open>dx = 10^19\<close> the product
  \<open>reserveY * (dx - fee)\<close> does not fit in 128 bits and the quote does not succeed.
\<close>

theorem quote_x_for_y_overflow_counterexample:
  "0 < (10000000000000000000 :: nat) \<and>
   0 < reserve_x (test_pool\<lparr>reserve_x := 100000000000000000000,
                            reserve_y := 100000000000000000000\<rparr>) \<and>
   0 < reserve_y (test_pool\<lparr>reserve_x := 100000000000000000000,
                            reserve_y := 100000000000000000000\<rparr>) \<and>
   quote_x_for_y 10000000000000000000
     (test_pool\<lparr>reserve_x := 100000000000000000000, reserve_y := 100000000000000000000\<rparr>) =
   Inl (Abort ArithmeticOverflow)"
  by (simp add: quote_overflow)

subsection \<open>C10: the quote for adding liquidity\<close>

text \<open>
  C10, amended. \<open>quote-add-liquidity\<close> never answers with an error code, for any
  amounts and any pool. When \<open>total-supply\<close> is zero it returns shares
  \<open>= isqrt(amountX * amountY)\<close> with the optimal amounts equal to the inputs, provided
  the product fits in 128 bits; so the quote for \<open>(0, 0)\<close> is \<open>shares = 0\<close>. When
  \<open>total-supply\<close> and both reserves are positive it returns the smaller of the two
  share amounts and the amounts they stand for, provided \<open>amountX * totalShares\<close> and
  \<open>amountY * totalShares\<close> fit in 128 bits. When a product does not fit, the call
  aborts with an arithmetic overflow.
\<close>

theorem quote_add_liquidity_outcome:
  "quote_add_liquidity ax ay s \<noteq> Inl (Err u) \<and>
   (total_supply s = 0 \<longrightarrow>
      quote_add_liquidity ax ay s =
        (if ax * ay \<le> uint_max
         then Inr \<lparr>lq_shares = sqrti (ax * ay), lq_optimal_x = ax, lq_optimal_y = ay\<rparr>
         else Inl (Abort ArithmeticOverflow)) \<and>
      quote_add_liquidity 0 0 s = Inr \<lparr>lq_shares = 0, lq_optimal_x = 0, lq_optimal_y = 0\<rparr>) \<and>
   (0 < total_supply s \<and> 0 < reserve_x s \<and> 0 < reserve_y s \<longrightarrow>
      quote_add_liquidity ax ay s =
        (if ax * total_supply s \<le> uint_max \<and> ay * total_supply s \<le> uint_max
         then Inr \<lparr>lq_shares = min (ax * total_supply s div reserve_x s)
                                   (ay * total_supply s div reserve_y s),
                   lq_optimal_x = min (ax * total_supply s div reserve_x s)
                                      (ay * total_supply s div reserve_y s)
                                  * reserve_x s div total_supply s,
                   lq_optimal_y = min (ax * total_supply s div reserve_x s)
                                      (ay * total_supply s div reserve_y s)
                                  * reserve_y s div total_supply s\<rparr>
         else Inl (Abort ArithmeticOverflow)))"
proof (intro conjI impI)
  show "quote_add_liquidity ax ay s \<noteq> Inl (Err u)"
    by (rule quote_add_liquidity_no_Err)
next
  assume z: "total_supply s = 0"
  show "quote_add_liquidity ax ay s =
        (if ax * ay \<le> uint_max
         then Inr \<lparr>lq_shares = sqrti (ax * ay), lq_optimal_x = ax, lq_optimal_y = ay\<rparr>
         else Inl (Abort ArithmeticOverflow))"
    by (rule quote_add_liquidity_first [OF z])
  have "sqrti 0 = 0"
    by (simp add: sqrti.simps)
  then show "quote_add_liquidity 0 0 s =
      Inr \<lparr>lq_shares = 0, lq_optimal_x = 0, lq_optimal_y = 0\<rparr>"
    using quote_add_liquidity_first [OF z, of 0 0] by simp
next
  assume "0 < total_supply s \<and> 0 < reserve_x s \<and> 0 < reserve_y s"
  then show "quote_add_liquidity ax ay s =
        (if ax * total_supply s \<le> uint_max \<and> ay * total_supply s \<le> uint_max
         then Inr \<lparr>lq_shares = min (ax * total_supply s div reserve_x s)
                                   (ay * total_supply s div reserve_y s),
                   lq_optimal_x = min (ax * total_supply s div reserve_x s)
                                      (ay * total_supply s div reserve_y s)
                                  * reserve_x s div total_supply s,
                   lq_optimal_y = min (ax * total_supply s div reserve_x s)
                                      (ay * total_supply s div reserve_y s)
                                  * reserve_y s div total_supply s\<rparr>
         else Inl (Abort ArithmeticOverflow))"
    by (simp add: quote_add_liquidity_later)
qed

text \<open>The theorem on the pool at deployment and on the pool of the test suite.\<close>

theorem quote_add_liquidity_outcome_witness:
  "total_supply (initial_state ()) = 0 \<and>
   quote_add_liquidity 100000000 200000000 (initial_state ()) =
     Inr \<lparr>lq_shares = 141421356, lq_optimal_x = 100000000, lq_optimal_y = 200000000\<rparr> \<and>
   quote_add_liquidity 0 0 (initial_state ()) =
     Inr \<lparr>lq_shares = 0, lq_optimal_x = 0, lq_optimal_y = 0\<rparr> \<and>
   0 < total_supply test_pool \<and> 0 < reserve_x test_pool \<and> 0 < reserve_y test_pool \<and>
   quote_add_liquidity 50000000 100000000 test_pool =
     Inr \<lparr>lq_shares = 70710678, lq_optimal_x = 50000000, lq_optimal_y = 100000000\<rparr>"
  using quote_add_liquidity_outcome [of 100000000 200000000 "initial_state ()"]
    quote_add_liquidity_outcome [of 50000000 100000000 test_pool]
  by (simp add: initial_state_def test_pool_def uint_max_def sqrti_20000000000000000)

text \<open>
  C10 as stated fails: on the pool at deployment, the quote for the amounts
  \<open>(10^20, 10^20)\<close> is not an ok result, because the product \<open>10^40\<close> does not fit
  in 128 bits.
\<close>

theorem quote_add_liquidity_overflow_counterexample:
  "total_supply (initial_state ()) = 0 \<and>
   quote_add_liquidity 100000000000000000000 100000000000000000000 (initial_state ()) =
   Inl (Abort ArithmeticOverflow)"
  by (simp add: quote_add_overflow) (simp add: initial_state_def)

end
